theory Spec2Isabelle
  imports Main
begin

section \<open>Library functions of Go used by the engine\<close>

text \<open>
  Go strings are byte sequences, text in UTF-8; \<open>string\<close> (a list of 8-bit characters) is
  the same thing. \<open>strings.TrimSpace\<close> removes the leading and then the trailing white space
  as \<open>unicode.IsSpace\<close> defines it: U+0009 to U+000D, U+0020, U+0085, U+00A0, U+1680, U+2000
  to U+200A, U+2028, U+2029, U+202F, U+205F and U+3000. Go decodes one rune at a time, from
  the front and from the back; each of these runes has one encoding, a byte that is not
  part of a valid encoding decodes as the replacement rune, which is no white space, and so
  the string starts (ends) with a white space rune exactly when it starts (ends) with one of
  the byte sequences of \<open>spaceRunes\<close>.
\<close>

definition spaceRunes :: "string list" where
  "spaceRunes =
     [[CHR 0x09], [CHR 0x0A], [CHR 0x0B], [CHR 0x0C], [CHR 0x0D], [CHR 0x20],
      [CHR 0xC2, CHR 0x85], [CHR 0xC2, CHR 0xA0],
      [CHR 0xE1, CHR 0x9A, CHR 0x80],
      [CHR 0xE2, CHR 0x80, CHR 0x80], [CHR 0xE2, CHR 0x80, CHR 0x81],
      [CHR 0xE2, CHR 0x80, CHR 0x82], [CHR 0xE2, CHR 0x80, CHR 0x83],
      [CHR 0xE2, CHR 0x80, CHR 0x84], [CHR 0xE2, CHR 0x80, CHR 0x85],
      [CHR 0xE2, CHR 0x80, CHR 0x86], [CHR 0xE2, CHR 0x80, CHR 0x87],
      [CHR 0xE2, CHR 0x80, CHR 0x88], [CHR 0xE2, CHR 0x80, CHR 0x89],
      [CHR 0xE2, CHR 0x80, CHR 0x8A],
      [CHR 0xE2, CHR 0x80, CHR 0xA8], [CHR 0xE2, CHR 0x80, CHR 0xA9],
      [CHR 0xE2, CHR 0x80, CHR 0xAF],
      [CHR 0xE2, CHR 0x81, CHR 0x9F],
      [CHR 0xE3, CHR 0x80, CHR 0x80]]"

definition startsWith :: "string \<Rightarrow> string \<Rightarrow> bool" where
  "startsWith t s = (t \<noteq> [] \<and> take (length t) s = t)"

function trimLeading :: "string list \<Rightarrow> string \<Rightarrow> string" where
  "trimLeading toks s =
     (case find (\<lambda>t. startsWith t s) toks of
        None \<Rightarrow> s
      | Some t \<Rightarrow> trimLeading toks (drop (length t) s))"
  by pat_completeness auto
termination
proof (relation "measure (\<lambda>(toks, s). length s)")
  show "wf (measure (\<lambda>(toks, s). length s))" by simp
next
  fix toks :: "string list" and s t :: string
  assume "find (\<lambda>t. startsWith t s) toks = Some t"
  then have "startsWith t s" by (auto simp: find_Some_iff)
  then have "t \<noteq> []" "take (length t) s = t" by (simp_all add: startsWith_def)
  then have "s \<noteq> []" by auto
  with \<open>t \<noteq> []\<close> show "((toks, drop (length t) s), (toks, s)) \<in> measure (\<lambda>(toks, s). length s)"
    by simp
qed

declare trimLeading.simps [simp del]

definition TrimSpace :: "string \<Rightarrow> string" where
  "TrimSpace s = rev (trimLeading (map rev spaceRunes) (rev (trimLeading spaceRunes s)))"

text \<open>\<open>strings.Join\<close>.\<close>

fun Join :: "string list \<Rightarrow> string \<Rightarrow> string" where
  "Join [] sep = []"
| "Join [x] sep = x"
| "Join (x # y # ys) sep = x @ sep @ Join (y # ys) sep"

text \<open>
  The verbs of \<open>fmt.Sprintf\<close>: \<open>%d\<close> is \<open>itoa\<close>; \<open>%s\<close> and \<open>%v\<close> of a string or an
  error insert the text as it is; \<open>%q\<close> is \<open>quote\<close>: the text in double quotes, with the
  double quote and the backslash escaped by a backslash, the control characters written as
  \<open>\a \b \f \n \r \t \v\<close> or, for the others below U+0020 and for U+007F, as \<open>\x\<close> and two
  hexadecimal digits. Bytes from 0x80 on are left as they are, which is what Go does for
  printable text in UTF-8.
\<close>

fun natDigits :: "nat \<Rightarrow> string" where
  "natDigits n = (if n < 10 then [''0123456789'' ! n]
                  else natDigits (n div 10) @ [''0123456789'' ! (n mod 10)])"

declare natDigits.simps [simp del]

definition itoa :: "int \<Rightarrow> string" where
  "itoa i = (if i < 0 then CHR ''-'' # natDigits (nat (- i)) else natDigits (nat i))"

definition quoteChar :: "char \<Rightarrow> string" where
  "quoteChar c =
     (let n = (of_char c :: nat)
      in if c = CHR 0x22 \<or> c = CHR 0x5C then [CHR 0x5C, c]
         else if n = 7 then [CHR 0x5C, CHR ''a'']
         else if n = 8 then [CHR 0x5C, CHR ''b'']
         else if n = 12 then [CHR 0x5C, CHR ''f'']
         else if n = 10 then [CHR 0x5C, CHR ''n'']
         else if n = 13 then [CHR 0x5C, CHR ''r'']
         else if n = 9 then [CHR 0x5C, CHR ''t'']
         else if n = 11 then [CHR 0x5C, CHR ''v'']
         else if n < 32 \<or> n = 127 then
           [CHR 0x5C, CHR ''x'', ''0123456789abcdef'' ! (n div 16), ''0123456789abcdef'' ! (n mod 16)]
         else [c])"

definition quote :: "string \<Rightarrow> string" where
  "quote s = CHR 0x22 # concat (map quoteChar s) @ [CHR 0x22]"

section \<open>Findings, severities and summaries\<close>

text \<open>
  The packages \<open>workflow\<close>, \<open>checks\<close> and \<open>mysql\<close> each declare the same three types
  \<open>Severity\<close>, \<open>Finding\<close> and \<open>Summary\<close>; one copy serves all three here. A value of
  Go's \<open>interface{}\<close>, as stored in finding metadata and in the checkpoint state, is an
  \<open>any\<close>. A \<open>map[string]interface{}\<close> is a partial map; the nil map and the empty map
  read alike and are both \<open>Map.empty\<close>.
\<close>

datatype any = NilV | BoolV bool | IntV int | StrV string | StrsV "string list"
  | StrPtrV "string option"

datatype Severity = SeverityInfo | SeverityWarn | SeverityBlock

record Finding =
  Severity :: Severity
  Message :: string
  Meta :: "string \<rightharpoonup> any"

record Summary =
  Info :: int
  Warn :: int
  Block :: int

definition Summary0 :: Summary where
  "Summary0 = \<lparr>Info = 0, Warn = 0, Block = 0\<rparr>"

text \<open>
  Errors. Those the engine creates itself are constructors of their own; an error that a
  collaborator (a step, a check, an inspector, an action) returns is \<open>External\<close> with its
  text; \<open>Wrapped p e\<close> is \<open>fmt.Errorf(p + "%v", e)\<close>. \<open>errorString\<close> is the method
  \<open>Error()\<close>.
\<close>

datatype error =
    External string
  | Wrapped string error
  | NotIdempotent string
  | ContextErr string
  | NotReadOnly string
  | PhraseRequired
  | CollaboratorsRequired
  | InspectorRequired string
  | HostsRequired
  | ConnectorRequired
  | TopicRequired

fun errorString :: "error \<Rightarrow> string" where
  "errorString (External s) = s"
| "errorString (Wrapped p e) = p @ errorString e"
| "errorString (NotIdempotent n) =
     ''step '' @ quote n @ '' is not idempotent; all steps must be idempotent''"
| "errorString (ContextErr s) = s"
| "errorString (NotReadOnly n) = ''preflight check '' @ quote n @ '' is not read-only''"
| "errorString PhraseRequired = ''confirmation phrase is required''"
| "errorString CollaboratorsRequired = ''inspector and actions are required''"
| "errorString (InspectorRequired which) = which @ '' inspector is required''"
| "errorString HostsRequired = ''primary and replica hosts are required''"
| "errorString ConnectorRequired = ''connector name is required''"
| "errorString TopicRequired = ''schema history topic is required''"

text \<open>
  \<open>applySummary\<close> (packages \<open>checks\<close> and \<open>mysql\<close>), the same loop as the aggregation in
  \<open>workflow.Runner.Run\<close>: one counter per severity.
\<close>

fun applySummary :: "Summary \<Rightarrow> Finding list \<Rightarrow> Summary" where
  "applySummary s [] = s"
| "applySummary s (f # fs) =
     applySummary
       (case Severity f of
          SeverityInfo \<Rightarrow> s\<lparr>Info := Info s + 1\<rparr>
        | SeverityWarn \<Rightarrow> s\<lparr>Warn := Warn s + 1\<rparr>
        | SeverityBlock \<Rightarrow> s\<lparr>Block := Block s + 1\<rparr>) fs"

fun hasBlock :: "Finding list \<Rightarrow> bool" where
  "hasBlock [] = False"
| "hasBlock (f # fs) = (if Severity f = SeverityBlock then True else hasBlock fs)"

fun countSeverity :: "Finding list \<Rightarrow> Severity \<Rightarrow> int" where
  "countSeverity [] sv = 0"
| "countSeverity (f # fs) sv = (if Severity f = sv then 1 else 0) + countSeverity fs sv"

section \<open>Checkpoint state\<close>

text \<open>
  \<open>workflow.MemoryState\<close> keeps two maps, \<open>values\<close> and \<open>completed\<close> (a
  \<open>map[string]struct{}\<close>, that is a set of step names). \<open>state.FileState\<close> keeps one map
  \<open>data\<close> and writes it to its file after every change; the write and its ignored error
  are outside the model, which follows the map in memory. \<open>Get\<close> returns a value and a
  found flag in Go: \<open>Some v\<close> is \<open>(v, true)\<close> and \<open>None\<close> is \<open>(nil, false)\<close>.
\<close>

record MemoryState =
  mvalues :: "string \<rightharpoonup> any"
  completed :: "string set"

definition NewMemoryState :: MemoryState where
  "NewMemoryState = \<lparr>mvalues = Map.empty, completed = {}\<rparr>"

definition MemoryState_Get :: "MemoryState \<Rightarrow> string \<Rightarrow> any option" where
  "MemoryState_Get m key = mvalues m key"

definition MemoryState_Set :: "MemoryState \<Rightarrow> string \<Rightarrow> any \<Rightarrow> MemoryState" where
  "MemoryState_Set m key v = m\<lparr>mvalues := (mvalues m)(key \<mapsto> v)\<rparr>"

definition MemoryState_MarkCompleted :: "MemoryState \<Rightarrow> string \<Rightarrow> MemoryState" where
  "MemoryState_MarkCompleted m stepName = m\<lparr>completed := insert stepName (completed m)\<rparr>"

definition MemoryState_IsCompleted :: "MemoryState \<Rightarrow> string \<Rightarrow> bool" where
  "MemoryState_IsCompleted m stepName = (stepName \<in> completed m)"

record FileState =
  path :: string
  data :: "string \<rightharpoonup> any"

definition completedKey :: "string \<Rightarrow> string" where
  "completedKey step = ''workflow:'' @ step @ '':completed''"

definition FileState_Get :: "FileState \<Rightarrow> string \<Rightarrow> any option" where
  "FileState_Get s key = data s key"

definition FileState_Set :: "FileState \<Rightarrow> string \<Rightarrow> any \<Rightarrow> FileState" where
  "FileState_Set s key v = s\<lparr>data := (data s)(key \<mapsto> v)\<rparr>"

definition FileState_MarkCompleted :: "FileState \<Rightarrow> string \<Rightarrow> FileState" where
  "FileState_MarkCompleted s stepName = s\<lparr>data := (data s)(completedKey stepName \<mapsto> BoolV True)\<rparr>"

definition FileState_IsCompleted :: "FileState \<Rightarrow> string \<Rightarrow> bool" where
  "FileState_IsCompleted s stepName =
     (case data s (completedKey stepName) of
        None \<Rightarrow> False
      | Some v \<Rightarrow> (case v of BoolV b \<Rightarrow> b | _ \<Rightarrow> False))"

text \<open>The interface \<open>workflow.State\<close> with its two implementations.\<close>

datatype State = InMemory MemoryState | InFile FileState

fun State_Get :: "State \<Rightarrow> string \<Rightarrow> any option" where
  "State_Get (InMemory m) key = MemoryState_Get m key"
| "State_Get (InFile s) key = FileState_Get s key"

fun State_Set :: "State \<Rightarrow> string \<Rightarrow> any \<Rightarrow> State" where
  "State_Set (InMemory m) key v = InMemory (MemoryState_Set m key v)"
| "State_Set (InFile s) key v = InFile (FileState_Set s key v)"

fun State_MarkCompleted :: "State \<Rightarrow> string \<Rightarrow> State" where
  "State_MarkCompleted (InMemory m) stepName = InMemory (MemoryState_MarkCompleted m stepName)"
| "State_MarkCompleted (InFile s) stepName = InFile (FileState_MarkCompleted s stepName)"

fun State_IsCompleted :: "State \<Rightarrow> string \<Rightarrow> bool" where
  "State_IsCompleted (InMemory m) stepName = MemoryState_IsCompleted m stepName"
| "State_IsCompleted (InFile s) stepName = FileState_IsCompleted s stepName"

section \<open>Workflow Runner\<close>

text \<open>
  A \<open>workflow.Step\<close> is an interface of four methods. \<open>Run\<close> receives the checkpoint
  state, which it may change, and returns its findings (the \<open>StepResult\<close>) and an error or
  nil; the state as the step leaves it is the third component here. The context is what the
  runner sees of it: \<open>ctx i\<close> is \<open>Some e\<close> when the context is done at the boundary before
  the \<open>i\<close>-th step of the list, \<open>e\<close> being the text of \<open>ctx.Err()\<close>.
\<close>

record StepResult =
  Findings :: "Finding list"

record Step =
  Step_Name :: string
  Step_Run :: "State \<Rightarrow> StepResult \<times> error option \<times> State"
  Idempotent :: bool
  Mutates :: bool

type_synonym Context = "nat \<Rightarrow> string option"

text \<open>
  The lines the runner writes to its logger, one constructor per \<open>Printf\<close> of
  \<open>Runner.Run\<close>, with the arguments of the format string: "context canceled before step",
  "skipping completed step", "BLOCK: step ... mutates but Runner.AllowMutations is false",
  "running step" (written right before the step's \<open>Run\<close> is called),
  "BLOCK encountered in step ...; halting plan execution" and
  "completed step: ... (INFO= WARN= BLOCK=)".
\<close>

datatype LogLine =
    LogCanceled string
  | LogSkipping string
  | LogMutationBlocked string
  | LogRunning string
  | LogBlockHalt string
  | LogCompleted string int int int

text \<open>
  A \<open>Runner\<close> as \<open>NewRunner\<close> builds it: a state (the in-memory one when none is given) and
  an initialised \<open>results\<close> map. The logger's output is the field \<open>logged\<close>.
\<close>

record Runner =
  Steps :: "Step list"
  Runner_State :: State
  AllowMutations :: bool
  results :: "string \<rightharpoonup> StepResult"
  logged :: "LogLine list"

definition NewRunner :: "Step list \<Rightarrow> State option \<Rightarrow> bool \<Rightarrow> Runner" where
  "NewRunner steps state allowMutations =
     \<lparr>Steps = steps,
      Runner_State = (case state of None \<Rightarrow> InMemory NewMemoryState | Some st \<Rightarrow> st),
      AllowMutations = allowMutations, results = Map.empty, logged = []\<rparr>"

text \<open>
  The body of the second loop of \<open>Runner.Run\<close> either returns from \<open>Run\<close> or goes on to
  the next step: \<open>Return\<close> carries the returned summary and error with the runner as it is
  then, \<open>Continue\<close> the running summary and the runner.
\<close>

datatype Flow = Return Summary "error option" Runner | Continue Summary Runner

definition mutationBlockedFinding :: "string \<Rightarrow> Finding" where
  "mutationBlockedFinding name =
     \<lparr>Severity = SeverityBlock, Message = ''mutating step blocked by Runner configuration'',
      Meta = [''step'' \<mapsto> StrV name]\<rparr>"

definition stepErrorFinding :: "string \<Rightarrow> error \<Rightarrow> Finding" where
  "stepErrorFinding name err =
     \<lparr>Severity = SeverityBlock, Message = ''step error: '' @ errorString err,
      Meta = [''step'' \<mapsto> StrV name]\<rparr>"

text \<open>The findings recorded for an executed step: its own, then the Block for its error.\<close>

definition recordedFindings :: "Step \<Rightarrow> StepResult \<Rightarrow> error option \<Rightarrow> StepResult" where
  "recordedFindings step res err =
     (case err of
        None \<Rightarrow> res
      | Some e \<Rightarrow> res\<lparr>Findings := Findings res @ [stepErrorFinding (Step_Name step) e]\<rparr>)"

text \<open>
  The aggregation loop of \<open>Runner.Run\<close> over the findings of one step: it counts into
  the running summary and sets \<open>blocked\<close> at every Block finding.
\<close>

fun aggregate :: "Summary \<Rightarrow> bool \<Rightarrow> Finding list \<Rightarrow> Summary \<times> bool" where
  "aggregate s blocked [] = (s, blocked)"
| "aggregate s blocked (f # fs) =
     (case Severity f of
        SeverityInfo \<Rightarrow> aggregate (s\<lparr>Info := Info s + 1\<rparr>) blocked fs
      | SeverityWarn \<Rightarrow> aggregate (s\<lparr>Warn := Warn s + 1\<rparr>) blocked fs
      | SeverityBlock \<Rightarrow> aggregate (s\<lparr>Block := Block s + 1\<rparr>) True fs)"

fun runSteps :: "Context \<Rightarrow> nat \<Rightarrow> Step list \<Rightarrow> Summary \<Rightarrow> Runner \<Rightarrow> Flow" where
  "runSteps ctx i [] summary r = Continue summary r"
| "runSteps ctx i (step # rest) summary r =
     (case ctx i of
        Some e \<Rightarrow>
          Return summary (Some (ContextErr e))
            (r\<lparr>logged := logged r @ [LogCanceled (Step_Name step)]\<rparr>)
      | None \<Rightarrow>
          if State_IsCompleted (Runner_State r) (Step_Name step) then
            runSteps ctx (i + 1) rest summary
              (r\<lparr>logged := logged r @ [LogSkipping (Step_Name step)]\<rparr>)
          else if Mutates step \<and> \<not> AllowMutations r then
            Return (summary\<lparr>Block := Block summary + 1\<rparr>) None
              (r\<lparr>results := (results r)(Step_Name step \<mapsto>
                     \<lparr>Findings = [mutationBlockedFinding (Step_Name step)]\<rparr>),
                 logged := logged r @ [LogMutationBlocked (Step_Name step)]\<rparr>)
          else
            (case Step_Run step (Runner_State r) of
               (res0, err, st) \<Rightarrow>
                 let res = recordedFindings step res0 err;
                     (summary', blocked) = aggregate summary False (Findings res);
                     r1 = r\<lparr>Runner_State := st,
                            results := (results r)(Step_Name step \<mapsto> res),
                            logged := logged r @ [LogRunning (Step_Name step)]\<rparr>
                 in if blocked then
                      Return summary' None
                        (r1\<lparr>logged := logged r1 @ [LogBlockHalt (Step_Name step)]\<rparr>)
                    else
                      runSteps ctx (i + 1) rest summary'
                        (r1\<lparr>Runner_State := State_MarkCompleted st (Step_Name step),
                            logged := logged r1 @
                              [LogCompleted (Step_Name step)
                                 (countSeverity (Findings res) SeverityInfo)
                                 (countSeverity (Findings res) SeverityWarn)
                                 (countSeverity (Findings res) SeverityBlock)]\<rparr>)))"

text \<open>
  \<open>Runner.Run\<close>: the first loop validates idempotence and returns the error for the first
  step that is not idempotent; the second loop is \<open>runSteps\<close>. The result is the summary
  and error that \<open>Run\<close> returns, and the runner with its state, results and log after the
  call.
\<close>

definition Runner_Run :: "Runner \<Rightarrow> Context \<Rightarrow> Summary \<times> error option \<times> Runner" where
  "Runner_Run r ctx =
     (case find (\<lambda>s. \<not> Idempotent s) (Steps r) of
        Some s \<Rightarrow> (Summary0, Some (NotIdempotent (Step_Name s)), r)
      | None \<Rightarrow>
          (case runSteps ctx 0 (Steps r) Summary0 r of
             Return summary err r' \<Rightarrow> (summary, err, r')
           | Continue summary r' \<Rightarrow> (summary, None, r')))"

text \<open>The names of the steps whose \<open>Run\<close> was called, in order, as the log tells.\<close>

fun executedSteps :: "LogLine list \<Rightarrow> string list" where
  "executedSteps [] = []"
| "executedSteps (LogRunning n # ls) = n # executedSteps ls"
| "executedSteps (_ # ls) = executedSteps ls"

text \<open>
  The step implementations of the package: \<open>ReadOnlyStep\<close> and \<open>MutatingStep\<close> are both
  idempotent and differ in \<open>Mutates\<close>; \<open>badStep\<close> is the step of the package's test
  \<open>TestRun_NonIdempotentRejected\<close>.
\<close>

definition NewReadOnlyStep ::
  "string \<Rightarrow> (State \<Rightarrow> StepResult \<times> error option \<times> State) \<Rightarrow> Step" where
  "NewReadOnlyStep name runFn =
     \<lparr>Step_Name = name, Step_Run = runFn, Idempotent = True, Mutates = False\<rparr>"

definition NewMutatingStep ::
  "string \<Rightarrow> (State \<Rightarrow> StepResult \<times> error option \<times> State) \<Rightarrow> Step" where
  "NewMutatingStep name runFn =
     \<lparr>Step_Name = name, Step_Run = runFn, Idempotent = True, Mutates = True\<rparr>"

definition badStep :: Step where
  "badStep = \<lparr>Step_Name = ''bad'', Step_Run = (\<lambda>st. (\<lparr>Findings = []\<rparr>, None, st)),
              Idempotent = False, Mutates = False\<rparr>"

text \<open>A step function that returns the given findings and error and leaves the state alone.\<close>

definition returning ::
  "Finding list \<Rightarrow> error option \<Rightarrow> State \<Rightarrow> StepResult \<times> error option \<times> State" where
  "returning fs err st = (\<lparr>Findings = fs\<rparr>, err, st)"

definition finding :: "Severity \<Rightarrow> string \<Rightarrow> Finding" where
  "finding sv msg = \<lparr>Severity = sv, Message = msg, Meta = Map.empty\<rparr>"

section \<open>Example configurations\<close>

text \<open>
  The steps of the package's tests: \<open>preflight\<close> reports one Info, \<open>validate\<close> reports one
  Warn; \<open>failing\<close> reports one Warn and returns an error.
\<close>

definition preflightStep :: Step where
  "preflightStep =
     NewReadOnlyStep ''preflight'' (returning [finding SeverityInfo ''preflight ok''] None)"

definition validateStep :: Step where
  "validateStep =
     NewReadOnlyStep ''validate'' (returning [finding SeverityWarn ''minor risk''] None)"

definition failingStep :: Step where
  "failingStep =
     NewReadOnlyStep ''failing''
       (returning [finding SeverityWarn ''minor risk''] (Some (External ''boom'')))"

definition neverCanceled :: Context where
  "neverCanceled = (\<lambda>i. None)"

section \<open>Checks Runner\<close>

text \<open>
  A \<open>checks.PreflightCheck\<close> is an interface of three methods; \<open>Run\<close> receives the
  \<open>Input\<close> and returns findings and an error or nil. The runner only hands the input on,
  so its type is a parameter. A \<open>Result\<close> holds the findings of one check.
\<close>

record 'i PreflightCheck =
  Check_Name :: string
  Check_Run :: "'i \<Rightarrow> Finding list \<times> error option"
  ReadOnly :: bool

record Result =
  CheckName :: string
  Result_Findings :: "Finding list"

definition NewReadOnlyCheck ::
  "string \<Rightarrow> ('i \<Rightarrow> Finding list \<times> error option) \<Rightarrow> 'i PreflightCheck" where
  "NewReadOnlyCheck name runFn = \<lparr>Check_Name = name, Check_Run = runFn, ReadOnly = True\<rparr>"

definition checkErrorFinding :: "string \<Rightarrow> error \<Rightarrow> Finding" where
  "checkErrorFinding name err =
     \<lparr>Severity = SeverityBlock, Message = ''check error: '' @ errorString err,
      Meta = [''check'' \<mapsto> StrV name]\<rparr>"

definition missingMessageFinding :: "string \<Rightarrow> Finding" where
  "missingMessageFinding checkName =
     \<lparr>Severity = SeverityBlock,
      Message = ''check '' @ quote checkName @ '' emitted a finding without a message'',
      Meta = [''check'' \<mapsto> StrV checkName]\<rparr>"

fun enforceMessages :: "string \<Rightarrow> Finding list \<Rightarrow> Finding list" where
  "enforceMessages checkName [] = []"
| "enforceMessages checkName (f # fs) =
     (if TrimSpace (Message f) = [] then missingMessageFinding checkName
      else f) # enforceMessages checkName fs"

text \<open>
  The loop of \<open>checks.Runner.Run\<close>. The last argument is the trace of the calls of
  \<open>check.Run\<close>: for each call the name of the check and what the call returned, in the
  order of the calls. The trace is returned beside the three values that \<open>Run\<close> returns.
\<close>

record CheckCall =
  Called_Name :: string
  Returned_Findings :: "Finding list"
  Returned_Error :: "error option"

definition callOf :: "'i \<Rightarrow> 'i PreflightCheck \<Rightarrow> CheckCall" where
  "callOf input check =
     (case Check_Run check input of
        (findings, err) \<Rightarrow>
          \<lparr>Called_Name = Check_Name check, Returned_Findings = findings, Returned_Error = err\<rparr>)"

fun runChecks ::
  "'i \<Rightarrow> 'i PreflightCheck list \<Rightarrow> Summary \<Rightarrow> Result list \<Rightarrow> CheckCall list \<Rightarrow>
   (Summary \<times> Result list \<times> error option) \<times> CheckCall list" where
  "runChecks input [] summary out called = ((summary, out, None), called)"
| "runChecks input (check # rest) summary out called =
     (if \<not> ReadOnly check then
        ((Summary0, [], Some (NotReadOnly (Check_Name check))), called)
      else
        (case Check_Run check input of
           (findings0, err) \<Rightarrow>
             let findings1 = (case err of
                                None \<Rightarrow> findings0
                              | Some e \<Rightarrow> findings0 @ [checkErrorFinding (Check_Name check) e]);
                 findings = enforceMessages (Check_Name check) findings1
             in runChecks input rest (applySummary summary findings)
                  (out @ [\<lparr>CheckName = Check_Name check, Result_Findings = findings\<rparr>])
                  (called @ [\<lparr>Called_Name = Check_Name check, Returned_Findings = findings0,
                              Returned_Error = err\<rparr>])))"

definition Checks_Run ::
  "'i PreflightCheck list \<Rightarrow> 'i \<Rightarrow>
   (Summary \<times> Result list \<times> error option) \<times> CheckCall list" where
  "Checks_Run checks input = runChecks input checks Summary0 [] []"

section \<open>Promotion Gate\<close>

record 'i PromotionGate =
  Checks :: "'i PreflightCheck list"
  RequiredCheckNames :: "string list"
  ConfirmationPhrase :: string

fun missingChecks :: "string list \<Rightarrow> 'i PreflightCheck list \<Rightarrow> string list" where
  "missingChecks [] checksList = []"
| "missingChecks (name # required) checksList =
     (if name \<in> set (map Check_Name checksList) then missingChecks required checksList
      else name # missingChecks required checksList)"

definition withCheckName :: "string \<Rightarrow> Finding \<Rightarrow> Finding" where
  "withCheckName checkName f =
     (if Meta f ''check'' = None then f\<lparr>Meta := (Meta f)(''check'' \<mapsto> StrV checkName)\<rparr>
      else f)"

fun flattenResults :: "Result list \<Rightarrow> Finding list" where
  "flattenResults [] = []"
| "flattenResults (r # rs) = map (withCheckName (CheckName r)) (Result_Findings r) @ flattenResults rs"

definition confirmationFinding :: "string \<Rightarrow> Finding" where
  "confirmationFinding phrase =
     \<lparr>Severity = SeverityBlock, Message = ''promotion requires explicit confirmation'',
      Meta = [''required'' \<mapsto> StrV phrase]\<rparr>"

definition missingChecksFinding :: "string list \<Rightarrow> Finding" where
  "missingChecksFinding missing =
     \<lparr>Severity = SeverityBlock,
      Message = ''promotion requires checks: '' @ Join missing '', '',
      Meta = [''missing'' \<mapsto> StrsV missing]\<rparr>"

definition promotionBlockedFinding :: "Summary \<Rightarrow> Finding" where
  "promotionBlockedFinding summary =
     \<lparr>Severity = SeverityBlock,
      Message = ''promotion blocked due to WARN/BLOCK findings (WARN='' @ itoa (Warn summary)
                @ '', BLOCK='' @ itoa (Block summary) @ '')'',
      Meta = [''warn'' \<mapsto> IntV (Warn summary), ''block'' \<mapsto> IntV (Block summary)]\<rparr>"

definition requiredChecks :: "'i PromotionGate \<Rightarrow> string list" where
  "requiredChecks g =
     (if RequiredCheckNames g = [] then [''cdc_debezium_health'', ''schema_parity'']
      else RequiredCheckNames g)"

text \<open>
  \<open>PromotionGate.Run\<close>, with the trace of the calls of the checks beside the three
  values it returns.
\<close>

definition PromotionGate_Run ::
  "'i PromotionGate \<Rightarrow> 'i \<Rightarrow> string \<Rightarrow>
   (Summary \<times> Finding list \<times> error option) \<times> CheckCall list" where
  "PromotionGate_Run g input confirmation =
     (if TrimSpace (ConfirmationPhrase g) = [] then ((Summary0, [], Some PhraseRequired), [])
      else if confirmation \<noteq> ConfirmationPhrase g then
        ((Summary0\<lparr>Block := 1\<rparr>, [confirmationFinding (ConfirmationPhrase g)], None), [])
      else
        let missing = missingChecks (requiredChecks g) (Checks g)
        in if missing \<noteq> [] then
             ((Summary0\<lparr>Block := 1\<rparr>, [missingChecksFinding missing], None), [])
           else
             (case Checks_Run (Checks g) input of
                ((summary, out, Some e), called) \<Rightarrow> ((Summary0, [], Some e), called)
              | ((summary, out, None), called) \<Rightarrow>
                  let findings = flattenResults out
                  in if Warn summary > 0 \<or> Block summary > 0 then
                       ((summary\<lparr>Block := Block summary + 1\<rparr>,
                         findings @ [promotionBlockedFinding summary], None), called)
                     else ((summary, findings, None), called)))"

text \<open>All findings of a list of results, in order.\<close>

definition allFindings :: "Result list \<Rightarrow> Finding list" where
  "allFindings rs = concat (map Result_Findings rs)"

text \<open>
  The checks of the package's tests: \<open>mutatingCheck\<close> is not read-only; the two checks
  named after the default required checks report what the promotion tests make them report.
\<close>

definition mutatingCheck :: "unit PreflightCheck" where
  "mutatingCheck =
     \<lparr>Check_Name = ''mutating'',
      Check_Run = (\<lambda>input. ([finding SeverityInfo ''should not run''], None)),
      ReadOnly = False\<rparr>"

definition infoCheck :: "unit PreflightCheck" where
  "infoCheck = NewReadOnlyCheck ''info'' (\<lambda>input. ([finding SeverityInfo ''ok''], None))"

definition cdcLagCheck :: "unit PreflightCheck" where
  "cdcLagCheck =
     NewReadOnlyCheck ''cdc_debezium_health'' (\<lambda>input. ([finding SeverityWarn ''cdc lag''], None))"

definition cdcOkCheck :: "unit PreflightCheck" where
  "cdcOkCheck =
     NewReadOnlyCheck ''cdc_debezium_health'' (\<lambda>input. ([finding SeverityInfo ''cdc ok''], None))"

definition schemaOkCheck :: "unit PreflightCheck" where
  "schemaOkCheck =
     NewReadOnlyCheck ''schema_parity'' (\<lambda>input. ([finding SeverityInfo ''schema ok''], None))"

definition promoteGate :: "unit PreflightCheck list \<Rightarrow> unit PromotionGate" where
  "promoteGate cs = \<lparr>Checks = cs, RequiredCheckNames = [], ConfirmationPhrase = ''PROMOTE''\<rparr>"

section \<open>Schema Parity Engine\<close>

record Column =
  Column_Name :: string
  Column_Type :: string
  Nullable :: bool
  Default :: "string option"
  Charset :: string
  Collation :: string

record Table =
  Table_Name :: string
  Columns :: "Column list"
  PrimaryKey :: "string list"

record Schema =
  Tables :: "Table list"

text \<open>
  \<open>equalStrings\<close>: the lengths first, then the elements by index; after the length test the
  index is in range of both slices.
\<close>

fun equalElements :: "string list \<Rightarrow> string list \<Rightarrow> bool" where
  "equalElements (x # xs) (y # ys) = (if x \<noteq> y then False else equalElements xs ys)"
| "equalElements xs ys = True"

definition equalStrings :: "string list \<Rightarrow> string list \<Rightarrow> bool" where
  "equalStrings a b = (if length a \<noteq> length b then False else equalElements a b)"

definition equalDefaults :: "string option \<Rightarrow> string option \<Rightarrow> bool" where
  "equalDefaults a b =
     (case (a, b) of
        (None, None) \<Rightarrow> True
      | (None, Some y) \<Rightarrow> False
      | (Some x, None) \<Rightarrow> False
      | (Some x, Some y) \<Rightarrow> x = y)"

definition comparePrimaryKey :: "string \<Rightarrow> string list \<Rightarrow> string list \<Rightarrow> Finding list" where
  "comparePrimaryKey table primaryPK replicaPK =
     (if length primaryPK = 0 \<and> length replicaPK = 0 then []
      else if length primaryPK = 0 \<and> length replicaPK > 0 then
        [\<lparr>Severity = SeverityWarn,
          Message = ''table '' @ quote table @ '' has primary key on replica but not on primary'',
          Meta = [''table'' \<mapsto> StrV table]\<rparr>]
      else if length primaryPK > 0 \<and> length replicaPK = 0 then
        [\<lparr>Severity = SeverityBlock,
          Message = ''table '' @ quote table @ '' missing primary key on replica'',
          Meta = [''table'' \<mapsto> StrV table]\<rparr>]
      else if \<not> equalStrings primaryPK replicaPK then
        [\<lparr>Severity = SeverityBlock,
          Message = ''table '' @ quote table @ '' primary key mismatch'',
          Meta = [''table'' \<mapsto> StrV table, ''primary_pk'' \<mapsto> StrsV primaryPK,
                  ''replica_pk'' \<mapsto> StrsV replicaPK]\<rparr>]
      else [])"

text \<open>
  \<open>tableIndex\<close> and \<open>columnIndex\<close> build a map from a slice, a later entry of the same name
  replacing an earlier one. Go does not specify the order in which \<open>range\<close> visits the keys
  of a map; the model takes it as a parameter: \<open>ord\<close> rearranges the list of the keys, and
  \<open>rangeKeys ord names\<close> is the order of the visit of the map built from \<open>names\<close>.
\<close>

fun tableIndex :: "Table list \<Rightarrow> (string \<rightharpoonup> Table) \<Rightarrow> (string \<rightharpoonup> Table)" where
  "tableIndex [] idx = idx"
| "tableIndex (t # ts) idx = tableIndex ts (idx(Table_Name t \<mapsto> t))"

fun columnIndex :: "Column list \<Rightarrow> (string \<rightharpoonup> Column) \<Rightarrow> (string \<rightharpoonup> Column)" where
  "columnIndex [] idx = idx"
| "columnIndex (c # cs) idx = columnIndex cs (idx(Column_Name c \<mapsto> c))"

definition rangeKeys :: "(string list \<Rightarrow> string list) \<Rightarrow> string list \<Rightarrow> string list" where
  "rangeKeys ord names = ord (remdups names)"

definition compareColumn :: "string \<Rightarrow> string \<Rightarrow> Column \<Rightarrow> Column \<Rightarrow> Finding list" where
  "compareColumn table name pCol rCol =
     (if Column_Type pCol \<noteq> Column_Type rCol then
        [\<lparr>Severity = SeverityBlock,
          Message = ''table '' @ quote table @ '' column '' @ quote name @ '' type mismatch'',
          Meta = [''table'' \<mapsto> StrV table, ''column'' \<mapsto> StrV name,
                  ''primary_type'' \<mapsto> StrV (Column_Type pCol),
                  ''replica_type'' \<mapsto> StrV (Column_Type rCol)]\<rparr>]
      else [])
     @ (if Nullable pCol \<noteq> Nullable rCol then
        [\<lparr>Severity = SeverityWarn,
          Message = ''table '' @ quote table @ '' column '' @ quote name @ '' nullability differs'',
          Meta = [''table'' \<mapsto> StrV table, ''column'' \<mapsto> StrV name,
                  ''primary_nullable'' \<mapsto> BoolV (Nullable pCol),
                  ''replica_nullable'' \<mapsto> BoolV (Nullable rCol)]\<rparr>]
      else [])
     @ (if \<not> equalDefaults (Default pCol) (Default rCol) then
        [\<lparr>Severity = SeverityWarn,
          Message = ''table '' @ quote table @ '' column '' @ quote name @ '' default differs'',
          Meta = [''table'' \<mapsto> StrV table, ''column'' \<mapsto> StrV name,
                  ''primary_default'' \<mapsto> StrPtrV (Default pCol),
                  ''replica_default'' \<mapsto> StrPtrV (Default rCol)]\<rparr>]
      else [])
     @ (if Collation pCol \<noteq> Collation rCol then
        [\<lparr>Severity = SeverityWarn,
          Message = ''table '' @ quote table @ '' column '' @ quote name @ '' collation differs'',
          Meta = [''table'' \<mapsto> StrV table, ''column'' \<mapsto> StrV name,
                  ''primary_collation'' \<mapsto> StrV (Collation pCol),
                  ''replica_collation'' \<mapsto> StrV (Collation rCol)]\<rparr>]
      else [])"

definition compareColumns ::
  "(string list \<Rightarrow> string list) \<Rightarrow> string \<Rightarrow> Column list \<Rightarrow> Column list \<Rightarrow> Finding list" where
  "compareColumns ord table primaryCols replicaCols =
     (let primaryIndex = columnIndex primaryCols Map.empty;
          replicaIndex = columnIndex replicaCols Map.empty
      in concat (map (\<lambda>name.
             case primaryIndex name of
               None \<Rightarrow> []
             | Some pCol \<Rightarrow>
                 (case replicaIndex name of
                    None \<Rightarrow>
                      [\<lparr>Severity = SeverityBlock,
                        Message = ''table '' @ quote table @ '' column '' @ quote name
                                  @ '' missing on replica'',
                        Meta = [''table'' \<mapsto> StrV table, ''column'' \<mapsto> StrV name]\<rparr>]
                  | Some rCol \<Rightarrow> compareColumn table name pCol rCol))
           (rangeKeys ord (map Column_Name primaryCols)))
         @ concat (map (\<lambda>name.
             if primaryIndex name = None then
               [\<lparr>Severity = SeverityWarn,
                 Message = ''table '' @ quote table @ '' has extra column '' @ quote name
                           @ '' on replica'',
                 Meta = [''table'' \<mapsto> StrV table, ''column'' \<mapsto> StrV name]\<rparr>]
             else [])
           (rangeKeys ord (map Column_Name replicaCols))))"

definition compareSchemas ::
  "(string list \<Rightarrow> string list) \<Rightarrow> Schema \<Rightarrow> Schema \<Rightarrow> Finding list" where
  "compareSchemas ord primary replica =
     (let primaryTables = tableIndex (Tables primary) Map.empty;
          replicaTables = tableIndex (Tables replica) Map.empty
      in concat (map (\<lambda>name.
             case primaryTables name of
               None \<Rightarrow> []
             | Some pTable \<Rightarrow>
                 (case replicaTables name of
                    None \<Rightarrow>
                      [\<lparr>Severity = SeverityBlock,
                        Message = ''table '' @ quote name @ '' missing on replica'',
                        Meta = [''table'' \<mapsto> StrV name]\<rparr>]
                  | Some rTable \<Rightarrow>
                      comparePrimaryKey name (PrimaryKey pTable) (PrimaryKey rTable)
                      @ compareColumns ord name (Columns pTable) (Columns rTable)))
           (rangeKeys ord (map Table_Name (Tables primary))))
         @ concat (map (\<lambda>name.
             if primaryTables name = None then
               [\<lparr>Severity = SeverityWarn,
                 Message = ''extra table '' @ quote name @ '' exists on replica'',
                 Meta = [''table'' \<mapsto> StrV name]\<rparr>]
             else [])
           (rangeKeys ord (map Table_Name (Tables replica)))))"

text \<open>
  \<open>SchemaParityCheck\<close>. The inspector is the method \<open>Schema\<close> of the interface
  \<open>SchemaInspector\<close>, \<open>None\<close> being the nil interface; it returns the schema of a host or an
  error.
\<close>

record SchemaParityCheck =
  SchemaParity_Inspector :: "(string \<Rightarrow> error + Schema) option"
  PrimaryHost :: string
  ReplicaHost :: string

definition SchemaParityCheck_Run ::
  "(string list \<Rightarrow> string list) \<Rightarrow> SchemaParityCheck \<Rightarrow> Finding list \<times> error option" where
  "SchemaParityCheck_Run ord c =
     (case SchemaParity_Inspector c of
        None \<Rightarrow> ([], Some (InspectorRequired ''schema''))
      | Some inspect \<Rightarrow>
          if PrimaryHost c = [] \<or> ReplicaHost c = [] then ([], Some HostsRequired)
          else
            (case inspect (PrimaryHost c) of
               Inl err \<Rightarrow> ([], Some (Wrapped ''failed to read primary schema: '' err))
             | Inr primary \<Rightarrow>
                 (case inspect (ReplicaHost c) of
                    Inl err \<Rightarrow> ([], Some (Wrapped ''failed to read replica schema: '' err))
                  | Inr replica \<Rightarrow> (compareSchemas ord primary replica, None))))"

definition SchemaParityCheck_asCheck ::
  "(string list \<Rightarrow> string list) \<Rightarrow> SchemaParityCheck \<Rightarrow> 'i PreflightCheck" where
  "SchemaParityCheck_asCheck ord c =
     \<lparr>Check_Name = ''schema_parity'', Check_Run = (\<lambda>input. SchemaParityCheck_Run ord c),
      ReadOnly = True\<rparr>"

text \<open>
  The schemas of the package's test \<open>TestSchemaParity_PKMissingOnReplicaBlocks\<close>: table
  \<open>t\<close> with primary key \<open>[id]\<close> on the primary and without one on the replica.
\<close>

definition pkPrimarySchema :: Schema where
  "pkPrimarySchema = \<lparr>Tables = [\<lparr>Table_Name = ''t'', Columns = [], PrimaryKey = [''id'']\<rparr>]\<rparr>"

definition pkReplicaSchema :: Schema where
  "pkReplicaSchema = \<lparr>Tables = [\<lparr>Table_Name = ''t'', Columns = [], PrimaryKey = []\<rparr>]\<rparr>"

section \<open>Debezium health check\<close>

text \<open>
  A \<open>time.Time\<close> is a number of nanoseconds on one time line and a \<open>time.Duration\<close> a
  number of nanoseconds. \<open>time.Since(t)\<close> is \<open>time.Now().Sub(t)\<close>: the difference, cut to
  the range of a \<open>Duration\<close> (an \<open>int64\<close>) when it does not fit. The reading of the clock is
  the argument \<open>now\<close>.
\<close>

definition maxDuration :: int where
  "maxDuration = 2 ^ 63 - 1"

definition minDuration :: int where
  "minDuration = - (2 ^ 63)"

definition time_Since :: "int \<Rightarrow> int \<Rightarrow> int" where
  "time_Since now t = max minDuration (min maxDuration (now - t))"

text \<open>
  \<open>Duration.String()\<close> of the standard library, which \<open>%s\<close> prints: hours, minutes and
  seconds with the fraction of a second, or a smaller unit below one second.
\<close>

fun fmtFrac :: "nat \<Rightarrow> nat \<Rightarrow> bool \<Rightarrow> string \<Rightarrow> string \<times> nat" where
  "fmtFrac prec v pr acc =
     (if prec = 0 then ((if pr then CHR ''.'' # acc else acc), v)
      else
        let digit = v mod 10; pr' = (pr \<or> digit \<noteq> 0)
        in fmtFrac (prec - 1) (v div 10) pr'
             (if pr' then (''0123456789'' ! digit) # acc else acc))"

declare fmtFrac.simps [simp del]

definition Duration_String :: "int \<Rightarrow> string" where
  "Duration_String d =
     (let u = nat \<bar>d\<bar>;
          sign = (if d < 0 then ''-'' else [])
      in if u < 1000000000 then
           (if u = 0 then ''0s''
            else if u < 1000 then
              (case fmtFrac 0 u False [] of (frac, w) \<Rightarrow> sign @ natDigits w @ frac @ ''ns'')
            else if u < 1000000 then
              (case fmtFrac 3 u False [] of
                 (frac, w) \<Rightarrow> sign @ natDigits w @ frac @ [CHR 0xC2, CHR 0xB5, CHR ''s''])
            else
              (case fmtFrac 6 u False [] of (frac, w) \<Rightarrow> sign @ natDigits w @ frac @ ''ms''))
         else
           (case fmtFrac 9 u False [] of
              (frac, secs) \<Rightarrow>
                let mins = secs div 60; hours = mins div 60
                in sign
                   @ (if mins > 0 \<and> hours > 0 then natDigits hours @ ''h'' else [])
                   @ (if mins > 0 then natDigits (mins mod 60) @ ''m'' else [])
                   @ natDigits (secs mod 60) @ frac @ ''s''))"

record TaskStatus =
  ID :: int
  Task_State :: string
  Worker :: string
  Trace :: string

record ConnectorStatus =
  Name :: string
  ConnectorState :: string
  ConnectorWorker :: string
  Tasks :: "TaskStatus list"
  RestartCount :: int
  LastRestartAt :: "int option"

text \<open>
  \<open>DebeziumHealthCheck\<close>. The inspector is the method \<open>ConnectorStatus\<close> of the interface
  \<open>DebeziumInspector\<close>, \<open>None\<close> being the nil interface. \<open>Run\<close> stores the default window
  (ten minutes) and the default maximum (three) in the check when they are zero;
  \<open>withDefaults\<close> is the check after that.
\<close>

record DebeziumHealthCheck =
  Debezium_Inspector :: "(string \<Rightarrow> error + ConnectorStatus) option"
  Connector :: string
  RestartLoopWindow :: int
  RestartLoopMax :: int

definition Minute :: int where
  "Minute = 60 * 1000000000"

definition withDefaults :: "DebeziumHealthCheck \<Rightarrow> DebeziumHealthCheck" where
  "withDefaults c =
     (let c1 = (if RestartLoopWindow c = 0 then c\<lparr>RestartLoopWindow := 10 * Minute\<rparr> else c)
      in if RestartLoopMax c1 = 0 then c1\<lparr>RestartLoopMax := 3\<rparr> else c1)"

definition isRestartLoop :: "int \<Rightarrow> ConnectorStatus \<Rightarrow> int \<Rightarrow> int \<Rightarrow> bool" where
  "isRestartLoop now status window maxRestarts =
     (case LastRestartAt status of
        None \<Rightarrow> False
      | Some t \<Rightarrow>
          if RestartCount status < maxRestarts then False
          else time_Since now t \<le> window)"

definition connectorStateFinding :: "ConnectorStatus \<Rightarrow> Finding" where
  "connectorStateFinding status =
     \<lparr>Severity = SeverityBlock,
      Message = ''connector '' @ quote (Name status) @ '' is '' @ ConnectorState status
                @ '' (expected RUNNING)'',
      Meta = [''connector'' \<mapsto> StrV (Name status), ''state'' \<mapsto> StrV (ConnectorState status)]\<rparr>"

definition taskStateFinding :: "ConnectorStatus \<Rightarrow> TaskStatus \<Rightarrow> Finding" where
  "taskStateFinding status task =
     \<lparr>Severity = SeverityBlock,
      Message = ''connector '' @ quote (Name status) @ '' task '' @ itoa (ID task) @ '' is ''
                @ Task_State task,
      Meta = [''connector'' \<mapsto> StrV (Name status), ''task_id'' \<mapsto> IntV (ID task),
              ''state'' \<mapsto> StrV (Task_State task), ''trace'' \<mapsto> StrV (Trace task)]\<rparr>"

definition restartLoopFinding :: "ConnectorStatus \<Rightarrow> int \<Rightarrow> Finding" where
  "restartLoopFinding status window =
     \<lparr>Severity = SeverityBlock,
      Message = ''connector '' @ quote (Name status) @ '' appears to be in a restart loop (''
                @ itoa (RestartCount status) @ '' restarts within '' @ Duration_String window
                @ '')'',
      Meta = [''connector'' \<mapsto> StrV (Name status),
              ''restart_count'' \<mapsto> IntV (RestartCount status),
              ''window'' \<mapsto> StrV (Duration_String window)]\<rparr>"

definition healthyFinding :: "ConnectorStatus \<Rightarrow> Finding" where
  "healthyFinding status =
     \<lparr>Severity = SeverityInfo,
      Message = ''connector '' @ quote (Name status) @ '' and tasks are RUNNING'',
      Meta = [''connector'' \<mapsto> StrV (Name status)]\<rparr>"

definition statusReadFailedFinding :: "string \<Rightarrow> error \<Rightarrow> Finding" where
  "statusReadFailedFinding connector err =
     \<lparr>Severity = SeverityBlock,
      Message = ''failed to read Debezium connector status: '' @ errorString err,
      Meta = [''connector'' \<mapsto> StrV connector]\<rparr>"

fun taskFindings :: "ConnectorStatus \<Rightarrow> TaskStatus list \<Rightarrow> Finding list" where
  "taskFindings status [] = []"
| "taskFindings status (task # tasks) =
     (if Task_State task \<noteq> ''RUNNING'' then taskStateFinding status task # taskFindings status tasks
      else taskFindings status tasks)"

definition DebeziumHealthCheck_Run ::
  "int \<Rightarrow> DebeziumHealthCheck \<Rightarrow> Finding list \<times> error option" where
  "DebeziumHealthCheck_Run now c0 =
     (case Debezium_Inspector c0 of
        None \<Rightarrow> ([], Some (InspectorRequired ''debezium''))
      | Some inspect \<Rightarrow>
          if Connector c0 = [] then ([], Some ConnectorRequired)
          else
            let c = withDefaults c0
            in (case inspect (Connector c) of
                  Inl err \<Rightarrow> ([statusReadFailedFinding (Connector c) err], None)
                | Inr status \<Rightarrow>
                    let findings =
                          (if ConnectorState status \<noteq> ''RUNNING''
                           then [connectorStateFinding status] else [])
                          @ taskFindings status (Tasks status)
                          @ (if isRestartLoop now status (RestartLoopWindow c) (RestartLoopMax c)
                             then [restartLoopFinding status (RestartLoopWindow c)] else [])
                    in if length findings = 0 then ([healthyFinding status], None)
                       else (findings, None)))"

definition DebeziumHealthCheck_asCheck :: "int \<Rightarrow> DebeziumHealthCheck \<Rightarrow> 'i PreflightCheck" where
  "DebeziumHealthCheck_asCheck now c =
     \<lparr>Check_Name = ''cdc_debezium_health'',
      Check_Run = (\<lambda>input. DebeziumHealthCheck_Run now c), ReadOnly = True\<rparr>"

text \<open>
  A connector that is running with its one task running, restarted five times, the last
  time at minute 998 of the time line; and a check with the default window and maximum
  whose inspector returns a given status.
\<close>

definition restartedStatus :: ConnectorStatus where
  "restartedStatus =
     \<lparr>Name = ''orders'', ConnectorState = ''RUNNING'', ConnectorWorker = [],
      Tasks = [\<lparr>ID = 0, Task_State = ''RUNNING'', Worker = [], Trace = []\<rparr>],
      RestartCount = 5, LastRestartAt = Some (998 * Minute)\<rparr>"

definition debeziumCheckOn :: "ConnectorStatus \<Rightarrow> DebeziumHealthCheck" where
  "debeziumCheckOn status =
     \<lparr>Debezium_Inspector = Some (\<lambda>connector. Inr status), Connector = ''orders'',
      RestartLoopWindow = 0, RestartLoopMax = 0\<rparr>"

section \<open>Kafka schema history check\<close>

text \<open>
  \<open>strings.ToLower\<close> maps every letter of Unicode to its lower case by the tables of the
  standard library. The tables are not reproduced here: the function is the parameter
  \<open>lower\<close> of \<open>missingTables\<close> and of the check.
\<close>

record KafkaInspector =
  TopicExists :: "string \<Rightarrow> error + bool"
  TopicReadable :: "string \<Rightarrow> error + bool"
  SchemaHistoryTables :: "string \<Rightarrow> error + string list"

record SchemaHistoryCheck =
  Kafka_Inspector :: "KafkaInspector option"
  Topic :: string
  ExpectedTables :: "string list"

fun missingFrom :: "(string \<Rightarrow> string) \<Rightarrow> string set \<Rightarrow> string list \<Rightarrow> string list" where
  "missingFrom lower coveredSet [] = []"
| "missingFrom lower coveredSet (t # ts) =
     (let key = lower (TrimSpace t)
      in if key = [] then missingFrom lower coveredSet ts
         else if key \<notin> coveredSet then t # missingFrom lower coveredSet ts
         else missingFrom lower coveredSet ts)"

definition missingTables ::
  "(string \<Rightarrow> string) \<Rightarrow> string list \<Rightarrow> string list \<Rightarrow> string list" where
  "missingTables lower expected covered =
     (if length expected = 0 then []
      else missingFrom lower (set (map (\<lambda>t. lower (TrimSpace t)) covered)) expected)"

definition topicFinding :: "Severity \<Rightarrow> string \<Rightarrow> string \<Rightarrow> Finding" where
  "topicFinding sv msg topic = \<lparr>Severity = sv, Message = msg, Meta = [''topic'' \<mapsto> StrV topic]\<rparr>"

definition SchemaHistoryCheck_Run ::
  "(string \<Rightarrow> string) \<Rightarrow> SchemaHistoryCheck \<Rightarrow> Finding list \<times> error option" where
  "SchemaHistoryCheck_Run lower c =
     (case Kafka_Inspector c of
        None \<Rightarrow> ([], Some (InspectorRequired ''kafka''))
      | Some insp \<Rightarrow>
          if TrimSpace (Topic c) = [] then ([], Some TopicRequired)
          else
            (case TopicExists insp (Topic c) of
               Inl err \<Rightarrow>
                 ([topicFinding SeverityBlock
                     (''failed to check schema history topic '' @ quote (Topic c) @ '': ''
                      @ errorString err) (Topic c)], None)
             | Inr exists \<Rightarrow>
                 if \<not> exists then
                   ([topicFinding SeverityBlock
                       (''schema history topic '' @ quote (Topic c) @ '' is missing'')
                       (Topic c)], None)
                 else
                   (case TopicReadable insp (Topic c) of
                      Inl err \<Rightarrow>
                        ([topicFinding SeverityBlock
                            (''failed to read schema history topic '' @ quote (Topic c) @ '': ''
                             @ errorString err) (Topic c)], None)
                    | Inr readable \<Rightarrow>
                        if \<not> readable then
                          ([topicFinding SeverityBlock
                              (''schema history topic '' @ quote (Topic c) @ '' is not readable'')
                              (Topic c)], None)
                        else
                          (case SchemaHistoryTables insp (Topic c) of
                             Inl err \<Rightarrow>
                               ([topicFinding SeverityBlock
                                   (''failed to read schema history coverage for ''
                                    @ quote (Topic c) @ '': '' @ errorString err) (Topic c)],
                                None)
                           | Inr coveredTables \<Rightarrow>
                               let missing = missingTables lower (ExpectedTables c) coveredTables
                               in if length missing > 0 then
                                    ([\<lparr>Severity = SeverityBlock,
                                       Message = ''schema history missing tables: ''
                                                 @ Join missing '', '',
                                       Meta = [''topic'' \<mapsto> StrV (Topic c),
                                               ''missing_tables'' \<mapsto> StrsV missing]\<rparr>], None)
                                  else
                                    ([topicFinding SeverityInfo
                                        (''schema history topic '' @ quote (Topic c)
                                         @ '' is healthy'') (Topic c)], None)))))"

section \<open>Replica Upgrade Orchestrator\<close>

record ReplicationStatus =
  IOThreadRunning :: bool
  SQLThreadRunning :: bool

text \<open>
  The interfaces \<open>ReplicaInspector\<close> and \<open>ReplicaActions\<close>: each method returns its value or
  an error. In the orchestrator a nil interface is \<open>None\<close>; so is a nil state, which
  \<open>getBool\<close> and \<open>setBool\<close> accept. Every call of a method is recorded as a \<open>Call\<close>:
  the method, its argument and what the call returned.
  The orchestrator has a logger, as \<open>NewUpgradeOrchestrator\<close> provides one; the lines it
  writes before each action are not part of the model, the calls are.
\<close>

record ReplicaInspector =
  IsPrimary :: "string \<Rightarrow> error + bool"
  Inspector_ReplicationStatus :: "string \<Rightarrow> error + ReplicationStatus"

record ReplicaActions =
  StopReplication :: "string \<Rightarrow> error option"
  RunUpgrade :: "string \<Rightarrow> error option"
  StartReplication :: "string \<Rightarrow> error option"

record UpgradeOrchestrator =
  Inspector :: "ReplicaInspector option"
  Actions :: "ReplicaActions option"
  Orchestrator_State :: "State option"
  Primary :: string

datatype Call =
    IsPrimaryCall string "error + bool"
  | ReplicationStatusCall string "error + ReplicationStatus"
  | StopReplicationCall string "error option"
  | RunUpgradeCall string "error option"
  | StartReplicationCall string "error option"

fun isActionCall :: "Call \<Rightarrow> bool" where
  "isActionCall (StopReplicationCall r res) = True"
| "isActionCall (RunUpgradeCall r res) = True"
| "isActionCall (StartReplicationCall r res) = True"
| "isActionCall c = False"

definition stoppedKey :: "string \<Rightarrow> string" where
  "stoppedKey replica = ''replica_upgrade:'' @ replica @ '':stopped''"

definition upgradedKey :: "string \<Rightarrow> string" where
  "upgradedKey replica = ''replica_upgrade:'' @ replica @ '':upgraded''"

definition resumedKey :: "string \<Rightarrow> string" where
  "resumedKey replica = ''replica_upgrade:'' @ replica @ '':resumed''"

text \<open>
  \<open>getBool\<close> returns the value and whether a boolean was found; the type assertion
  \<open>val.(bool)\<close> gives \<open>(false, false)\<close> for a value that is not a boolean.
\<close>

definition getBool :: "State option \<Rightarrow> string \<Rightarrow> bool \<times> bool" where
  "getBool state key =
     (case state of
        None \<Rightarrow> (False, False)
      | Some st \<Rightarrow>
          (case State_Get st key of
             None \<Rightarrow> (False, False)
           | Some v \<Rightarrow> (case v of BoolV b \<Rightarrow> (b, True) | _ \<Rightarrow> (False, False))))"

definition setBool :: "State option \<Rightarrow> string \<Rightarrow> bool \<Rightarrow> State option" where
  "setBool state key v =
     (case state of None \<Rightarrow> None | Some st \<Rightarrow> Some (State_Set st key (BoolV v)))"

definition replicaFinding :: "Severity \<Rightarrow> string \<Rightarrow> string \<Rightarrow> Finding" where
  "replicaFinding sv msg replica =
     \<lparr>Severity = sv, Message = msg, Meta = [''replica'' \<mapsto> StrV replica]\<rparr>"

definition detectPartialProgress ::
  "string \<Rightarrow> ReplicationStatus \<Rightarrow> State option \<Rightarrow> Finding list" where
  "detectPartialProgress replica status state =
     (let stopped = fst (getBool state (stoppedKey replica));
          resumed = fst (getBool state (resumedKey replica));
          threadsRunning = (IOThreadRunning status \<and> SQLThreadRunning status);
          threadsStopped = (\<not> IOThreadRunning status \<and> \<not> SQLThreadRunning status)
      in (if threadsStopped \<and> \<not> stopped then
            [replicaFinding SeverityWarn
               ''replication appears stopped but checkpoint is missing'' replica]
          else [])
         @ (if threadsRunning \<and> stopped \<and> \<not> resumed then
            [replicaFinding SeverityWarn
               ''checkpoint indicates replication stopped but status is running'' replica]
          else [])
         @ (if threadsStopped \<and> resumed then
            [replicaFinding SeverityWarn
               ''checkpoint indicates replication started but status is stopped'' replica]
          else []))"

text \<open>
  What \<open>Run\<close> holds while it works: the summary, the findings, the state and the calls made
  so far. Each of the three phases either returns from \<open>Run\<close> through \<open>appendBlock\<close>
  (\<open>Inl\<close>) or goes on to the next phase (\<open>Inr\<close>).
\<close>

type_synonym Progress = "Summary \<times> Finding list \<times> State option \<times> Call list"

definition appendBlock :: "Summary \<Rightarrow> Finding list \<Rightarrow> string \<Rightarrow> Summary \<times> Finding list" where
  "appendBlock summary findings message =
     (let block = \<lparr>Severity = SeverityBlock, Message = message, Meta = Map.empty\<rparr>
      in (applySummary summary [block], findings @ [block]))"

definition stopPhase :: "ReplicaActions \<Rightarrow> string \<Rightarrow> Progress \<Rightarrow> Progress + Progress" where
  "stopPhase acts replica p =
     (case p of (summary, findings, state, calls) \<Rightarrow>
        if \<not> fst (getBool state (stoppedKey replica)) then
          (case StopReplication acts replica of
             Some err \<Rightarrow>
               (case appendBlock summary findings
                       (''failed to stop replication: '' @ errorString err) of
                  (s, fs) \<Rightarrow> Inl (s, fs, state, calls @ [StopReplicationCall replica (Some err)]))
           | None \<Rightarrow>
               let f = replicaFinding SeverityInfo ''replication stopped'' replica
               in Inr (applySummary summary [f], findings @ [f],
                       setBool state (stoppedKey replica) True,
                       calls @ [StopReplicationCall replica None]))
        else
          let f = replicaFinding SeverityInfo ''replication already stopped'' replica
          in Inr (applySummary summary [f], findings @ [f], state, calls))"

definition upgradePhase :: "ReplicaActions \<Rightarrow> string \<Rightarrow> Progress \<Rightarrow> Progress + Progress" where
  "upgradePhase acts replica p =
     (case p of (summary, findings, state, calls) \<Rightarrow>
        if \<not> fst (getBool state (upgradedKey replica)) then
          (case RunUpgrade acts replica of
             Some err \<Rightarrow>
               (case appendBlock summary findings (''upgrade failed: '' @ errorString err) of
                  (s, fs) \<Rightarrow> Inl (s, fs, state, calls @ [RunUpgradeCall replica (Some err)]))
           | None \<Rightarrow>
               let f = replicaFinding SeverityInfo ''upgrade completed'' replica
               in Inr (applySummary summary [f], findings @ [f],
                       setBool state (upgradedKey replica) True,
                       calls @ [RunUpgradeCall replica None]))
        else
          let f = replicaFinding SeverityInfo ''upgrade already completed'' replica
          in Inr (applySummary summary [f], findings @ [f], state, calls))"

definition startPhase :: "ReplicaActions \<Rightarrow> string \<Rightarrow> Progress \<Rightarrow> Progress + Progress" where
  "startPhase acts replica p =
     (case p of (summary, findings, state, calls) \<Rightarrow>
        if \<not> fst (getBool state (resumedKey replica)) then
          (case StartReplication acts replica of
             Some err \<Rightarrow>
               (case appendBlock summary findings
                       (''failed to start replication: '' @ errorString err) of
                  (s, fs) \<Rightarrow> Inl (s, fs, state, calls @ [StartReplicationCall replica (Some err)]))
           | None \<Rightarrow>
               let f = replicaFinding SeverityInfo ''replication started'' replica
               in Inr (applySummary summary [f], findings @ [f],
                       setBool state (resumedKey replica) True,
                       calls @ [StartReplicationCall replica None]))
        else
          let f = replicaFinding SeverityInfo ''replication already started'' replica
          in Inr (applySummary summary [f], findings @ [f], state, calls))"

definition returned :: "Progress \<Rightarrow> (Summary \<times> Finding list \<times> error option) \<times> State option \<times> Call list" where
  "returned p = (case p of (summary, findings, state, calls) \<Rightarrow>
                   ((summary, findings, None), state, calls))"

text \<open>
  The three phases in the order in which \<open>Run\<close> goes through them once the replica is
  accepted: stop the replication, run the upgrade, start the replication. A phase that
  fails returns from \<open>Run\<close>; after the third phase \<open>Run\<close> returns what it holds.
\<close>

definition runPhases ::
  "ReplicaActions \<Rightarrow> string \<Rightarrow> Progress \<Rightarrow>
   (Summary \<times> Finding list \<times> error option) \<times> State option \<times> Call list" where
  "runPhases acts replica p =
     (case stopPhase acts replica p of
        Inl q \<Rightarrow> returned q
      | Inr p1 \<Rightarrow>
          (case upgradePhase acts replica p1 of
             Inl q \<Rightarrow> returned q
           | Inr p2 \<Rightarrow>
               (case startPhase acts replica p2 of
                  Inl q \<Rightarrow> returned q
                | Inr p3 \<Rightarrow> returned p3)))"

text \<open>
  \<open>UpgradeOrchestrator.Run\<close>: the three values it returns, the state after the call and
  the calls it made to the inspector and the actions, in order.
\<close>

definition UpgradeOrchestrator_Run ::
  "UpgradeOrchestrator \<Rightarrow> string \<Rightarrow>
   (Summary \<times> Finding list \<times> error option) \<times> State option \<times> Call list" where
  "UpgradeOrchestrator_Run orch target =
     (let replica = TrimSpace target; state = Orchestrator_State orch
      in if replica = [] then
           ((Summary0\<lparr>Block := 1\<rparr>,
             [\<lparr>Severity = SeverityBlock, Message = ''replica is required'', Meta = Map.empty\<rparr>],
             None), state, [])
         else
           (case (Inspector orch, Actions orch) of
              (Some insp, Some acts) \<Rightarrow>
                (case IsPrimary insp replica of
                   Inl err \<Rightarrow>
                     ((Summary0\<lparr>Block := 1\<rparr>,
                       [\<lparr>Severity = SeverityBlock,
                         Message = ''failed to determine primary status: '' @ errorString err,
                         Meta = Map.empty\<rparr>],
                       None), state, [IsPrimaryCall replica (Inl err)])
                 | Inr isPrimary \<Rightarrow>
                     if isPrimary \<or> (Primary orch \<noteq> [] \<and> replica = Primary orch) then
                       ((Summary0\<lparr>Block := 1\<rparr>,
                         [replicaFinding SeverityBlock ''refusing to upgrade primary'' replica],
                         None), state, [IsPrimaryCall replica (Inr isPrimary)])
                     else
                       let status = Inspector_ReplicationStatus insp replica;
                           findings =
                             (case status of
                                Inl err \<Rightarrow>
                                  [replicaFinding SeverityWarn
                                     (''unable to read replication status: '' @ errorString err)
                                     replica]
                              | Inr st \<Rightarrow> detectPartialProgress replica st state);
                           summary = applySummary Summary0 findings;
                           calls = [IsPrimaryCall replica (Inr isPrimary),
                                    ReplicationStatusCall replica status]
                       in if hasBlock findings then ((summary, findings, None), state, calls)
                          else runPhases acts replica (summary, findings, state, calls))
            | _ \<Rightarrow> ((Summary0, [], Some CollaboratorsRequired), state, [])))"

text \<open>
  The collaborators of the command line: \<open>staticReplicaInspector\<close> answers with fixed
  values and \<open>simulatedActions\<close> always succeed. \<open>failingStatusInspector\<close> reports a
  replica and fails to read its replication status.
\<close>

definition staticReplicaInspector :: "bool \<Rightarrow> ReplicationStatus \<Rightarrow> ReplicaInspector" where
  "staticReplicaInspector isPrimary status =
     \<lparr>IsPrimary = (\<lambda>host. Inr isPrimary), Inspector_ReplicationStatus = (\<lambda>replica. Inr status)\<rparr>"

definition failingStatusInspector :: ReplicaInspector where
  "failingStatusInspector =
     \<lparr>IsPrimary = (\<lambda>host. Inr False),
      Inspector_ReplicationStatus = (\<lambda>replica. Inl (External ''status failure''))\<rparr>"

definition simulatedActions :: ReplicaActions where
  "simulatedActions =
     \<lparr>StopReplication = (\<lambda>replica. None), RunUpgrade = (\<lambda>replica. None),
      StartReplication = (\<lambda>replica. None)\<rparr>"

definition threadsRunning :: ReplicationStatus where
  "threadsRunning = \<lparr>IOThreadRunning = True, SQLThreadRunning = True\<rparr>"

definition simulatedOrchestrator :: "bool \<Rightarrow> State option \<Rightarrow> string \<Rightarrow> UpgradeOrchestrator" where
  "simulatedOrchestrator isPrimary state primary =
     \<lparr>Inspector = Some (staticReplicaInspector isPrimary threadsRunning),
      Actions = Some simulatedActions, Orchestrator_State = state, Primary = primary\<rparr>"

text \<open>
  Two runs in sequence against one checkpoint store: the second run finds the state as the
  first left it. The result is the calls of the first run and the calls of the second.
\<close>

definition runTwice :: "UpgradeOrchestrator \<Rightarrow> string \<Rightarrow> Call list \<times> Call list" where
  "runTwice orch target =
     (case UpgradeOrchestrator_Run orch target of
        (res1, state1, calls1) \<Rightarrow>
          (case UpgradeOrchestrator_Run (orch\<lparr>Orchestrator_State := state1\<rparr>) target of
             (res2, state2, calls2) \<Rightarrow> (calls1, calls2)))"

text \<open>
  The replica is not the primary and every call succeeds: inspector and actions are there,
  the inspector reports the replica as not primary and reads its replication status, the
  replica is not the configured primary, and the three actions return no error.
\<close>

definition replicaAndAllCallsSucceed :: "UpgradeOrchestrator \<Rightarrow> string \<Rightarrow> bool" where
  "replicaAndAllCallsSucceed orch replica =
     (case (Inspector orch, Actions orch) of
        (Some insp, Some acts) \<Rightarrow>
          IsPrimary insp replica = Inr False
          \<and> \<not> (Primary orch \<noteq> [] \<and> replica = Primary orch)
          \<and> (case Inspector_ReplicationStatus insp replica of Inl err \<Rightarrow> False | Inr status \<Rightarrow> True)
          \<and> StopReplication acts replica = None
          \<and> RunUpgrade acts replica = None
          \<and> StartReplication acts replica = None
      | _ \<Rightarrow> False)"

text \<open>
  The in-memory state of the package's test \<open>TestUpgradeOrchestrator_IdempotentRerun\<close>: the
  three checkpoints of \<open>replica-1\<close> are set before the first run.
\<close>

definition checkpointedState :: State where
  "checkpointedState =
     State_Set (State_Set (State_Set (InMemory NewMemoryState)
       ''replica_upgrade:replica-1:stopped'' (BoolV True))
       ''replica_upgrade:replica-1:upgraded'' (BoolV True))
       ''replica_upgrade:replica-1:resumed'' (BoolV True)"

text \<open>
  A schema parity check whose inspector fails on every read (the \<open>fakeSchemaInspector\<close> of
  the package's tests with its error set), and an orchestrator whose inspector fails to
  read the replication status while the actions succeed.
\<close>

definition failingParityCheck :: SchemaParityCheck where
  "failingParityCheck =
     \<lparr>SchemaParity_Inspector = Some (\<lambda>host. Inl (External ''connection refused'')),
      PrimaryHost = ''primary'', ReplicaHost = ''replica''\<rparr>"

definition statusFailureOrchestrator :: UpgradeOrchestrator where
  "statusFailureOrchestrator =
     \<lparr>Inspector = Some failingStatusInspector, Actions = Some simulatedActions,
      Orchestrator_State = Some (InMemory NewMemoryState), Primary = ''mysql-primary''\<rparr>"

text \<open>
  A progress extends a number of Warn findings, a list of findings and a list of calls
  when its summary counts that many Warn findings and its findings and calls begin with
  these lists. Each phase keeps this.
\<close>

definition extends :: "int \<Rightarrow> Finding list \<Rightarrow> Call list \<Rightarrow> Progress \<Rightarrow> bool" where
  "extends w fs cs p =
     (case p of (summary, findings, state, calls) \<Rightarrow>
        Warn summary = w \<and> take (length fs) findings = fs \<and> take (length cs) calls = cs)"

section \<open>Properties\<close>

subsection \<open>Trimming\<close>

lemma TrimSpace_examples:
  "TrimSpace ''PROMOTE'' = ''PROMOTE''"
  "TrimSpace ''mysql-primary'' = ''mysql-primary''"
  "TrimSpace ''replica-1'' = ''replica-1''"
  "TrimSpace ''db1'' = ''db1''"
  "TrimSpace '' db1'' = ''db1''"
  "TrimSpace ''ok'' = ''ok''"
  "TrimSpace ''cdc lag'' = ''cdc lag''"
  "TrimSpace ''cdc ok'' = ''cdc ok''"
  "TrimSpace ''schema ok'' = ''schema ok''"
  "TrimSpace [CHR 0xC2, CHR 0xA0] = []"
  "TrimSpace (''db1'' @ [CHR 0xE2, CHR 0x80, CHR 0x83, CHR 0x09]) = ''db1''"
  by (simp_all add: TrimSpace_def trimLeading.simps spaceRunes_def startsWith_def)

subsection \<open>Checkpoint state: one key namespace in the file, two maps in memory\<close>

text \<open>
  C10. In the file-backed state completion markers and user values share one key
  namespace: after \<open>Set("workflow:" + s + ":completed", true)\<close> the step \<open>s\<close> counts as
  completed, and after \<open>MarkCompleted(s)\<close> the value \<open>true\<close> is found under that key. It
  is the \<open>Set\<close> that makes the step completed: in a file state that holds no data no
  step is completed, and no value is found under the key. The
  in-memory state keeps values and completion markers apart: a \<open>Set\<close> never changes what
  \<open>IsCompleted\<close> answers, so on a state where \<open>s\<close> is not completed (a new one, say) the
  same \<open>Set\<close> leaves \<open>IsCompleted(s)\<close> false.
\<close>

theorem C10_checkpoint_key_namespace:
  "FileState_IsCompleted (FileState_Set fs (''workflow:'' @ s @ '':completed'') (BoolV True)) s
   \<and> FileState_Get (FileState_MarkCompleted fs s) (''workflow:'' @ s @ '':completed'')
       = Some (BoolV True)
   \<and> MemoryState_IsCompleted (MemoryState_Set m (''workflow:'' @ s @ '':completed'') (BoolV True)) s
       = MemoryState_IsCompleted m s
   \<and> \<not> MemoryState_IsCompleted
         (MemoryState_Set NewMemoryState (''workflow:'' @ s @ '':completed'') (BoolV True)) s
   \<and> \<not> FileState_IsCompleted \<lparr>path = p, data = Map.empty\<rparr> s
   \<and> FileState_Get \<lparr>path = p, data = Map.empty\<rparr> (''workflow:'' @ s @ '':completed'') = None"
  by (simp add: FileState_IsCompleted_def FileState_Set_def FileState_Get_def
      FileState_MarkCompleted_def completedKey_def MemoryState_IsCompleted_def
      MemoryState_Set_def NewMemoryState_def)

subsection \<open>Workflow Runner\<close>

lemma find_first_not_idempotent:
  "\<exists>s\<in>set xs. \<not> Idempotent s \<Longrightarrow>
   \<exists>s. find (\<lambda>s. \<not> Idempotent s) xs = Some s \<and> s \<in> set xs \<and> \<not> Idempotent s"
  by (induction xs) auto

text \<open>
  C6. When some step of the list reports \<open>Idempotent() == false\<close>, \<open>Run\<close> returns the
  configuration error for such a step together with the zero summary, and the runner is
  what it was before the call: the checkpoint state is unchanged (nothing marked), the
  results map is unchanged (no finding recorded) and the log has no new line (no step's
  \<open>Run\<close> was called).
\<close>

theorem C6_non_idempotent_step_rejected:
  assumes "\<exists>s\<in>set (Steps r). \<not> Idempotent s"
  shows "\<exists>s\<in>set (Steps r). \<not> Idempotent s \<and>
           Runner_Run r ctx = (Summary0, Some (NotIdempotent (Step_Name s)), r)"
  using find_first_not_idempotent[OF assms] by (auto simp: Runner_Run_def)

theorem C6_non_idempotent_step_rejected_witness:
  "Runner_Run (NewRunner [preflightStep, badStep] None False) neverCanceled =
     (Summary0, Some (NotIdempotent ''bad''), NewRunner [preflightStep, badStep] None False)"
proof -
  have h: "\<exists>s\<in>set (Steps (NewRunner [preflightStep, badStep] None False)). \<not> Idempotent s"
    by (simp add: NewRunner_def badStep_def)
  from C6_non_idempotent_step_rejected[OF h, of neverCanceled]
  show ?thesis
    by (auto simp: NewRunner_def badStep_def preflightStep_def NewReadOnlyStep_def)
qed

lemma aggregate_eq:
  "aggregate s b fs = (applySummary s fs, b \<or> (\<exists>f\<in>set fs. Severity f = SeverityBlock))"
  by (induction fs arbitrary: s b) (auto split: Severity.split)

lemma runSteps_append:
  "runSteps ctx i (xs @ ys) summary r =
     (case runSteps ctx i xs summary r of
        Return s e r' \<Rightarrow> Return s e r'
      | Continue s r' \<Rightarrow> runSteps ctx (i + length xs) ys s r')"
proof (induction xs arbitrary: i summary r)
  case Nil
  then show ?case by simp
next
  case (Cons x xs)
  have idx: "i + length (x # xs) = Suc i + length xs" by simp
  show ?case
    unfolding idx by (auto simp: Cons.IH Let_def split: option.split prod.split)
qed

lemma State_IsCompleted_MarkCompleted: "State_IsCompleted (State_MarkCompleted st n) n"
  by (cases st) (simp_all add: MemoryState_IsCompleted_def MemoryState_MarkCompleted_def
      FileState_IsCompleted_def FileState_MarkCompleted_def)

lemma runSteps_executed_step:
  assumes "ctx i = None" "\<not> State_IsCompleted (Runner_State r1) (Step_Name step)"
      "\<not> (Mutates step \<and> \<not> AllowMutations r1)"
      "Step_Run step (Runner_State r1) = (res0, err, st)"
  shows "runSteps ctx i (step # post) summary r1 =
     (let res = recordedFindings step res0 err;
          r2 = r1\<lparr>Runner_State := st, results := (results r1)(Step_Name step \<mapsto> res),
                 logged := logged r1 @ [LogRunning (Step_Name step)]\<rparr>
      in if \<exists>f\<in>set (Findings res). Severity f = SeverityBlock then
            Return (applySummary summary (Findings res)) None
              (r2\<lparr>logged := logged r2 @ [LogBlockHalt (Step_Name step)]\<rparr>)
         else runSteps ctx (i + 1) post (applySummary summary (Findings res))
              (r2\<lparr>Runner_State := State_MarkCompleted st (Step_Name step),
                  logged := logged r2 @
                      [LogCompleted (Step_Name step)
                         (countSeverity (Findings res) SeverityInfo)
                         (countSeverity (Findings res) SeverityWarn)
                         (countSeverity (Findings res) SeverityBlock)]\<rparr>))"
  using assms by (auto simp: Let_def aggregate_eq)

text \<open>
  C1. Take a step list that the runner accepts (every step idempotent) and any step of it
  that is executed: the loop reaches it (the steps \<open>pre\<close> before it leave the running
  summary \<open>summary\<close> and the runner \<open>r1\<close>), the context is not done, the step is not marked
  completed and the mutation gate lets it pass. Let \<open>res\<close> be the findings recorded for it,
  its own and the Block made from its error, and \<open>st\<close> the state as its \<open>Run\<close> left it.
  If \<open>res\<close> holds a Block finding, \<open>Run\<close> returns there: the state of the runner is \<open>st\<close>,
  without a completion mark from the runner, and the log ends with the halting line of
  this step, so no later step was run. If \<open>res\<close> holds no Block, the step is marked
  completed in the state and the rest of the run is the loop over the steps \<open>post\<close> after
  it, from that state.
\<close>

theorem C1_block_halts_otherwise_checkpoint:
  assumes accepted: "\<forall>s\<in>set (Steps r). Idempotent s"
    and position: "Steps r = pre @ step # post"
    and reached: "runSteps ctx 0 pre Summary0 r = Continue summary r1"
    and executed: "ctx (length pre) = None"
      "\<not> State_IsCompleted (Runner_State r1) (Step_Name step)"
      "\<not> (Mutates step \<and> \<not> AllowMutations r1)"
    and run: "Step_Run step (Runner_State r1) = (res0, err, st)"
    and res: "res = recordedFindings step res0 err"
    and r2: "r2 = r1\<lparr>Runner_State := st, results := (results r1)(Step_Name step \<mapsto> res),
                 logged := logged r1 @ [LogRunning (Step_Name step)]\<rparr>"
  shows "((\<exists>f\<in>set (Findings res). Severity f = SeverityBlock) \<longrightarrow>
            Runner_Run r ctx =
              (applySummary summary (Findings res), None,
               r2\<lparr>logged := logged r2 @ [LogBlockHalt (Step_Name step)]\<rparr>))
       \<and> (\<not> (\<exists>f\<in>set (Findings res). Severity f = SeverityBlock) \<longrightarrow>
            State_IsCompleted (State_MarkCompleted st (Step_Name step)) (Step_Name step) \<and>
            Runner_Run r ctx =
              (case runSteps ctx (length pre + 1) post (applySummary summary (Findings res))
                      (r2\<lparr>Runner_State := State_MarkCompleted st (Step_Name step),
                          logged := logged r2 @
                            [LogCompleted (Step_Name step)
                               (countSeverity (Findings res) SeverityInfo)
                               (countSeverity (Findings res) SeverityWarn)
                               (countSeverity (Findings res) SeverityBlock)]\<rparr>) of
                 Return s e r' \<Rightarrow> (s, e, r')
               | Continue s r' \<Rightarrow> (s, None, r')))"
proof -
  have nofind: "find (\<lambda>s. \<not> Idempotent s) (Steps r) = None"
    using accepted by (simp add: find_None_iff)
  have whole: "runSteps ctx 0 (Steps r) Summary0 r =
               runSteps ctx (length pre) (step # post) summary r1"
    unfolding position by (simp add: runSteps_append[of ctx 0 pre] reached)
  have one: "runSteps ctx (length pre) (step # post) summary r1 =
     (let res = recordedFindings step res0 err;
          r2 = r1\<lparr>Runner_State := st, results := (results r1)(Step_Name step \<mapsto> res),
                 logged := logged r1 @ [LogRunning (Step_Name step)]\<rparr>
      in if \<exists>f\<in>set (Findings res). Severity f = SeverityBlock then
            Return (applySummary summary (Findings res)) None
              (r2\<lparr>logged := logged r2 @ [LogBlockHalt (Step_Name step)]\<rparr>)
         else runSteps ctx (length pre + 1) post (applySummary summary (Findings res))
              (r2\<lparr>Runner_State := State_MarkCompleted st (Step_Name step),
                  logged := logged r2 @
                      [LogCompleted (Step_Name step)
                         (countSeverity (Findings res) SeverityInfo)
                         (countSeverity (Findings res) SeverityWarn)
                         (countSeverity (Findings res) SeverityBlock)]\<rparr>))"
    using executed run by (rule runSteps_executed_step)
  show ?thesis
    unfolding Runner_Run_def nofind whole one res r2
    by (simp add: Let_def State_IsCompleted_MarkCompleted)
qed

theorem C1_block_halts_otherwise_checkpoint_witness:
  "fst (Runner_Run (NewRunner [preflightStep, failingStep, validateStep] None False) neverCanceled)
     = \<lparr>Info = 1, Warn = 1, Block = 1\<rparr>
   \<and> executedSteps (logged (snd (snd
         (Runner_Run (NewRunner [preflightStep, failingStep, validateStep] None False) neverCanceled))))
      = [''preflight'', ''failing'']
   \<and> \<not> State_IsCompleted (Runner_State (snd (snd
         (Runner_Run (NewRunner [preflightStep, failingStep, validateStep] None False) neverCanceled))))
         ''failing''
   \<and> fst (Runner_Run (NewRunner [preflightStep, validateStep] None False) neverCanceled)
     = \<lparr>Info = 1, Warn = 1, Block = 0\<rparr>
   \<and> State_IsCompleted (Runner_State (snd (snd
         (Runner_Run (NewRunner [preflightStep, validateStep] None False) neverCanceled))))
         ''validate''"
proof -
  note defs = preflightStep_def failingStep_def validateStep_def NewReadOnlyStep_def
    NewRunner_def returning_def finding_def MemoryState_IsCompleted_def
    MemoryState_MarkCompleted_def NewMemoryState_def recordedFindings_def Summary0_def
    neverCanceled_def stepErrorFinding_def
  let ?r = "NewRunner [preflightStep, failingStep, validateStep] None False"
  let ?q = "NewRunner [preflightStep, validateStep] None False"
  obtain s1 r1 where reached: "runSteps neverCanceled 0 [preflightStep] Summary0 ?r = Continue s1 r1"
    by (simp add: defs)
  have s1: "s1 = \<lparr>Info = 1, Warn = 0, Block = 0\<rparr>"
   and st1: "Runner_State r1 = InMemory (MemoryState_MarkCompleted NewMemoryState ''preflight'')"
   and am1: "AllowMutations r1 = False"
   and lg1: "logged r1 = [LogRunning ''preflight'', LogCompleted ''preflight'' 1 0 0]"
    using reached by (auto simp add: defs)
  have acc: "\<forall>s\<in>set (Steps ?r). Idempotent s" by (simp add: defs)
  have pos: "Steps ?r = [preflightStep] @ failingStep # [validateStep]" by (simp add: NewRunner_def)
  have e1: "neverCanceled (length [preflightStep]) = None" by (simp add: defs)
  have e2: "\<not> State_IsCompleted (Runner_State r1) (Step_Name failingStep)"
    by (simp add: st1 defs)
  have e3: "\<not> (Mutates failingStep \<and> \<not> AllowMutations r1)" by (simp add: defs)
  have run: "Step_Run failingStep (Runner_State r1) =
      (\<lparr>Findings = [finding SeverityWarn ''minor risk'']\<rparr>, Some (External ''boom''), Runner_State r1)"
    by (simp add: defs)
  note blockCase = C1_block_halts_otherwise_checkpoint[OF acc pos reached e1 e2 e3 run refl refl]
  obtain s2 r2 where reached2: "runSteps neverCanceled 0 [preflightStep] Summary0 ?q = Continue s2 r2"
    by (simp add: defs)
  have s2: "s2 = \<lparr>Info = 1, Warn = 0, Block = 0\<rparr>"
   and st2: "Runner_State r2 = InMemory (MemoryState_MarkCompleted NewMemoryState ''preflight'')"
   and am2: "AllowMutations r2 = False"
    using reached2 by (auto simp add: defs)
  have acc2: "\<forall>s\<in>set (Steps ?q). Idempotent s" by (simp add: defs)
  have pos2: "Steps ?q = [preflightStep] @ validateStep # []" by (simp add: NewRunner_def)
  have f2: "\<not> State_IsCompleted (Runner_State r2) (Step_Name validateStep)"
    by (simp add: st2 defs)
  have f3: "\<not> (Mutates validateStep \<and> \<not> AllowMutations r2)" by (simp add: defs)
  have run2: "Step_Run validateStep (Runner_State r2) =
      (\<lparr>Findings = [finding SeverityWarn ''minor risk'']\<rparr>, None, Runner_State r2)"
    by (simp add: defs)
  note clearCase = C1_block_halts_otherwise_checkpoint[OF acc2 pos2 reached2 e1 f2 f3 run2 refl refl]
  from blockCase clearCase show ?thesis
    by (simp add: defs s1 lg1 st1 s2 st2)
qed

subsection \<open>Checks Runner\<close>

lemma runChecks_first_not_read_only:
  "\<forall>p\<in>set pre. ReadOnly p \<Longrightarrow> \<not> ReadOnly c \<Longrightarrow>
   runChecks input (pre @ c # post) s out called =
     ((Summary0, [], Some (NotReadOnly (Check_Name c))), called @ map (callOf input) pre)"
  by (induction pre arbitrary: s out called) (auto simp: Let_def callOf_def split: prod.split)

text \<open>
  C9. When the list holds a check that reports \<open>ReadOnly() == false\<close>, \<open>Run\<close> returns
  the error for the first such check with the zero summary and no results. The read-only
  test sits inside the loop, before each check's \<open>Run\<close>: by then \<open>Run\<close> has been called
  on every check before the first one that is not read-only, and on no other. The trace
  holds exactly these calls, each with the findings and the error that the check
  returned; none of these findings is in what \<open>Run\<close> returns.
\<close>

theorem C9_read_only_checked_per_check:
  assumes "\<exists>c\<in>set checks. \<not> ReadOnly c"
  shows "Checks_Run checks input =
     ((Summary0, [], Some (NotReadOnly (Check_Name (hd (dropWhile ReadOnly checks))))),
      map (\<lambda>c. \<lparr>Called_Name = Check_Name c,
                 Returned_Findings = fst (Check_Run c input),
                 Returned_Error = snd (Check_Run c input)\<rparr>)
          (takeWhile ReadOnly checks))"
proof -
  have ne: "dropWhile ReadOnly checks \<noteq> []" using assms by (simp add: dropWhile_eq_Nil_conv)
  then obtain c post where dw: "dropWhile ReadOnly checks = c # post"
    by (cases "dropWhile ReadOnly checks") auto
  have nro: "\<not> ReadOnly c" using dw by (metis hd_dropWhile list.sel(1) ne)
  have split: "checks = takeWhile ReadOnly checks @ c # post"
    using dw by (metis takeWhile_dropWhile_id)
  have pre: "\<forall>p\<in>set (takeWhile ReadOnly checks). ReadOnly p" by (auto dest: set_takeWhileD)
  have call: "callOf input = (\<lambda>c. \<lparr>Called_Name = Check_Name c,
                 Returned_Findings = fst (Check_Run c input),
                 Returned_Error = snd (Check_Run c input)\<rparr>)"
    by (rule ext) (simp add: callOf_def split: prod.split)
  have "Checks_Run checks input =
        runChecks input (takeWhile ReadOnly checks @ c # post) Summary0 [] []"
    unfolding Checks_Run_def using split by simp
  also have "\<dots> = ((Summary0, [], Some (NotReadOnly (Check_Name c))),
                    [] @ map (callOf input) (takeWhile ReadOnly checks))"
    using pre nro by (rule runChecks_first_not_read_only)
  finally show ?thesis by (simp add: dw call)
qed

theorem C9_read_only_checked_per_check_witness:
  "Checks_Run [infoCheck, mutatingCheck, infoCheck] () =
     ((Summary0, [], Some (NotReadOnly ''mutating'')),
      [\<lparr>Called_Name = ''info'', Returned_Findings = [finding SeverityInfo ''ok''],
        Returned_Error = None\<rparr>])"
proof -
  have h: "\<exists>c\<in>set [infoCheck, mutatingCheck, infoCheck]. \<not> ReadOnly c"
    by (simp add: mutatingCheck_def)
  from C9_read_only_checked_per_check[OF h, of "()"] show ?thesis
    by (simp add: mutatingCheck_def infoCheck_def NewReadOnlyCheck_def)
qed

subsection \<open>Promotion Gate\<close>

lemma applySummary_append: "applySummary s (a @ b) = applySummary (applySummary s a) b"
  by (induction a arbitrary: s) auto

lemma applySummary_counts:
  "Info (applySummary s fs) = Info s + countSeverity fs SeverityInfo \<and>
   Warn (applySummary s fs) = Warn s + countSeverity fs SeverityWarn \<and>
   Block (applySummary s fs) = Block s + countSeverity fs SeverityBlock"
  by (induction fs arbitrary: s) (auto split: Severity.split)

lemma countSeverity_none: "\<forall>f\<in>set fs. Severity f \<noteq> sv \<Longrightarrow> countSeverity fs sv = 0"
  by (induction fs) auto


lemma allFindings_append: "allFindings (a @ b) = allFindings a @ allFindings b"
  by (simp add: allFindings_def)

lemma runChecks_summary:
  "runChecks input cs s out called = ((s', out', None), called') \<Longrightarrow>
   \<exists>new. out' = out @ new \<and> s' = applySummary s (allFindings new)"
proof (induction cs arbitrary: s out called)
  case Nil
  then show ?case by (auto simp: allFindings_def)
next
  case (Cons c cs)
  show ?case
  proof (cases "ReadOnly c")
    case False
    with Cons.prems show ?thesis by simp
  next
    case True
    obtain fs0 err where r: "Check_Run c input = (fs0, err)" by (cases "Check_Run c input")
    define fs where "fs = enforceMessages (Check_Name c)
        (case err of None \<Rightarrow> fs0 | Some e \<Rightarrow> fs0 @ [checkErrorFinding (Check_Name c) e])"
    have "runChecks input cs (applySummary s fs)
            (out @ [\<lparr>CheckName = Check_Name c, Result_Findings = fs\<rparr>]) (called @ [\<lparr>Called_Name = Check_Name c, Returned_Findings = fs0,
                       Returned_Error = err\<rparr>])
          = ((s', out', None), called')"
      using Cons.prems True r by (simp add: Let_def fs_def)
    from Cons.IH[OF this] obtain new where
      "out' = (out @ [\<lparr>CheckName = Check_Name c, Result_Findings = fs\<rparr>]) @ new"
      "s' = applySummary (applySummary s fs) (allFindings new)" by blast
    then have "out' = out @ (\<lparr>CheckName = Check_Name c, Result_Findings = fs\<rparr> # new) \<and>
      s' = applySummary s (allFindings (\<lparr>CheckName = Check_Name c, Result_Findings = fs\<rparr> # new))"
      by (simp add: allFindings_def applySummary_append)
    then show ?thesis by blast
  qed
qed

lemma severity_withCheckName: "Severity (withCheckName n f) = Severity f"
  by (simp add: withCheckName_def)

lemma severities_flattenResults:
  "map Severity (flattenResults rs) = map Severity (allFindings rs)"
  by (induction rs) (simp_all add: allFindings_def severity_withCheckName)

lemma all_info_iff:
  "(\<forall>f\<in>set (flattenResults rs). Severity f = SeverityInfo) =
   (\<forall>f\<in>set (allFindings rs). Severity f = SeverityInfo)"
proof -
  have "Severity ` set (flattenResults rs) = Severity ` set (allFindings rs)"
    using severities_flattenResults[of rs] by (metis set_map)
  then show ?thesis by (metis (no_types, lifting) image_iff)
qed

text \<open>
  C5. Let the gate be run with its (non-blank) confirmation phrase and with every required
  check among its checks, so that it runs the checks again; let \<open>summary\<close> and \<open>out\<close> be
  what the Checks Runner returns. If \<open>summary\<close> counts a Warn or a Block, the gate returns
  the flattened findings with exactly one more finding, the synthetic Block, at the end,
  and \<open>summary\<close> with its Block count raised by one. If every finding of the
  re-validation is Info, the gate returns \<open>summary\<close> unchanged and its Block count is zero.
\<close>

theorem C5_promotion_requires_clean_revalidation:
  assumes phrase: "TrimSpace (ConfirmationPhrase g) \<noteq> []" "confirmation = ConfirmationPhrase g"
    and present: "missingChecks (requiredChecks g) (Checks g) = []"
    and reval: "Checks_Run (Checks g) input = ((summary, out, None), called)"
  shows "(Warn summary > 0 \<or> Block summary > 0 \<longrightarrow>
            PromotionGate_Run g input confirmation =
              ((summary\<lparr>Block := Block summary + 1\<rparr>,
                flattenResults out @ [promotionBlockedFinding summary], None), called))
       \<and> ((\<forall>f\<in>set (flattenResults out). Severity f = SeverityInfo) \<longrightarrow>
            PromotionGate_Run g input confirmation = ((summary, flattenResults out, None), called)
            \<and> Block summary = 0)"
proof -
  have sum: "summary = applySummary Summary0 (allFindings out)"
    using runChecks_summary[OF reval[unfolded Checks_Run_def]] by auto
  have clean: "Warn summary = 0 \<and> Block summary = 0"
    if "\<forall>f\<in>set (flattenResults out). Severity f = SeverityInfo"
  proof -
    from that have "\<forall>f\<in>set (allFindings out). Severity f = SeverityInfo"
      by (simp add: all_info_iff)
    then have "countSeverity (allFindings out) SeverityWarn = 0"
      "countSeverity (allFindings out) SeverityBlock = 0"
      by (auto intro!: countSeverity_none)
    then show ?thesis
      using applySummary_counts[of Summary0 "allFindings out"] sum by (simp add: Summary0_def)
  qed
  show ?thesis
    using phrase present reval clean
    by (auto simp: PromotionGate_Run_def Let_def)
qed


theorem C5_promotion_requires_clean_revalidation_witness:
  "fst (fst (PromotionGate_Run (promoteGate [cdcLagCheck, schemaOkCheck]) () ''PROMOTE''))
     = \<lparr>Info = 1, Warn = 1, Block = 1\<rparr>
   \<and> map Severity (fst (snd (fst
        (PromotionGate_Run (promoteGate [cdcLagCheck, schemaOkCheck]) () ''PROMOTE''))))
     = [SeverityWarn, SeverityInfo, SeverityBlock]
   \<and> fst (fst (PromotionGate_Run (promoteGate [cdcOkCheck, schemaOkCheck]) () ''PROMOTE''))
     = \<lparr>Info = 2, Warn = 0, Block = 0\<rparr>"
proof -
  note defs = promoteGate_def cdcLagCheck_def cdcOkCheck_def schemaOkCheck_def
    NewReadOnlyCheck_def finding_def requiredChecks_def Checks_Run_def Summary0_def
    TrimSpace_examples withCheckName_def promotionBlockedFinding_def Let_def
  let ?g = "promoteGate [cdcLagCheck, schemaOkCheck]"
  let ?h = "promoteGate [cdcOkCheck, schemaOkCheck]"
  have p: "TrimSpace (ConfirmationPhrase ?g) \<noteq> []" "''PROMOTE'' = ConfirmationPhrase ?g"
    by (simp_all add: defs)
  have m: "missingChecks (requiredChecks ?g) (Checks ?g) = []" by (simp add: defs)
  obtain s out called where r: "Checks_Run (Checks ?g) () = ((s, out, None), called)"
    by (simp add: defs)
  have s: "s = \<lparr>Info = 1, Warn = 1, Block = 0\<rparr>"
    and sv: "map Severity (flattenResults out) = [SeverityWarn, SeverityInfo]"
    using r by (auto simp: defs)
  note warnCase = C5_promotion_requires_clean_revalidation[OF p m r]
  have p': "TrimSpace (ConfirmationPhrase ?h) \<noteq> []" "''PROMOTE'' = ConfirmationPhrase ?h"
    by (simp_all add: defs)
  have m': "missingChecks (requiredChecks ?h) (Checks ?h) = []" by (simp add: defs)
  obtain s' out' called' where r': "Checks_Run (Checks ?h) () = ((s', out', None), called')"
    by (simp add: defs)
  have s': "s' = \<lparr>Info = 2, Warn = 0, Block = 0\<rparr>"
    and sv': "\<forall>f\<in>set (flattenResults out'). Severity f = SeverityInfo"
    using r' by (auto simp: defs)
  note cleanCase = C5_promotion_requires_clean_revalidation[OF p' m' r']
  from warnCase cleanCase show ?thesis
    by (simp add: s sv s' sv' promotionBlockedFinding_def)
qed

subsection \<open>Schema Parity Engine\<close>

lemma equalElements_iff: "length a = length b \<Longrightarrow> equalElements a b = (a = b)"
  by (induction a b rule: equalElements.induct) auto

lemma equalStrings_iff: "equalStrings a b = (a = b)"
  by (auto simp: equalStrings_def equalElements_iff)

text \<open>
  C7. The primary-key comparison yields, by the severities of its findings: nothing when
  both lists are empty; one Warn when only the replica has a primary key; one Block when
  only the primary has one; one Block when both are non-empty and differ as lists (in
  length, or at some position: the comparison is sensitive to order); nothing when they
  are equal. For a table that both snapshots hold and that the loop over the primary's
  tables visits, these findings are among the findings of \<open>compareSchemas\<close>.
\<close>

theorem C7_primary_key_comparison:
  "map Severity (comparePrimaryKey t primaryPK replicaPK) =
     (if primaryPK = [] \<and> replicaPK = [] then []
      else if primaryPK = [] then [SeverityWarn]
      else if replicaPK = [] then [SeverityBlock]
      else if primaryPK \<noteq> replicaPK then [SeverityBlock]
      else [])
   \<and> (tableIndex (Tables primary) Map.empty t = Some pTable
      \<and> tableIndex (Tables replica) Map.empty t = Some rTable
      \<and> t \<in> set (rangeKeys ord (map Table_Name (Tables primary)))
      \<longrightarrow> set (comparePrimaryKey t (PrimaryKey pTable) (PrimaryKey rTable))
            \<subseteq> set (compareSchemas ord primary replica))"
proof -
  have sev: "map Severity (comparePrimaryKey t primaryPK replicaPK) =
     (if primaryPK = [] \<and> replicaPK = [] then []
      else if primaryPK = [] then [SeverityWarn]
      else if replicaPK = [] then [SeverityBlock]
      else if primaryPK \<noteq> replicaPK then [SeverityBlock]
      else [])"
    by (simp add: comparePrimaryKey_def equalStrings_iff)
  have part: "set (comparePrimaryKey t (PrimaryKey pTable) (PrimaryKey rTable))
            \<subseteq> set (compareSchemas ord primary replica)"
    if p: "tableIndex (Tables primary) Map.empty t = Some pTable"
    and r: "tableIndex (Tables replica) Map.empty t = Some rTable"
    and v: "t \<in> set (rangeKeys ord (map Table_Name (Tables primary)))"
  proof
    fix f assume f: "f \<in> set (comparePrimaryKey t (PrimaryKey pTable) (PrimaryKey rTable))"
    show "f \<in> set (compareSchemas ord primary replica)"
      unfolding compareSchemas_def Let_def set_append set_concat set_map
      apply (rule UnI1)
      apply (rule UN_I[where a = "(\<lambda>name. case tableIndex (Tables primary) Map.empty name of
               None \<Rightarrow> []
             | Some pTable \<Rightarrow>
                 (case tableIndex (Tables replica) Map.empty name of
                    None \<Rightarrow>
                      [\<lparr>Severity = SeverityBlock,
                        Message = ''table '' @ quote name @ '' missing on replica'',
                        Meta = [''table'' \<mapsto> StrV name]\<rparr>]
                  | Some rTable \<Rightarrow>
                      comparePrimaryKey name (PrimaryKey pTable) (PrimaryKey rTable)
                      @ compareColumns ord name (Columns pTable) (Columns rTable))) t"])
      using v apply (rule imageI)
      using f by (simp add: p r)
  qed
  show ?thesis using sev part by blast
qed

theorem C7_primary_key_comparison_witness:
  "map Severity (compareSchemas (\<lambda>ks. ks) pkPrimarySchema pkReplicaSchema) = [SeverityBlock]
   \<and> set (comparePrimaryKey ''t'' [''id''] [])
       \<subseteq> set (compareSchemas (\<lambda>ks. ks) pkPrimarySchema pkReplicaSchema)"
proof -
  have p: "tableIndex (Tables pkPrimarySchema) Map.empty ''t''
            = Some \<lparr>Table_Name = ''t'', Columns = [], PrimaryKey = [''id'']\<rparr>"
    by (simp add: pkPrimarySchema_def)
  have r: "tableIndex (Tables pkReplicaSchema) Map.empty ''t''
            = Some \<lparr>Table_Name = ''t'', Columns = [], PrimaryKey = []\<rparr>"
    by (simp add: pkReplicaSchema_def)
  have v: "''t'' \<in> set (rangeKeys (\<lambda>ks. ks) (map Table_Name (Tables pkPrimarySchema)))"
    by (simp add: rangeKeys_def pkPrimarySchema_def)
  from C7_primary_key_comparison[where t = "''t''" and primaryPK = "[''id'']" and replicaPK = "[]"
      and primary = pkPrimarySchema and replica = pkReplicaSchema and ord = "\<lambda>ks. ks"
      and pTable = "\<lparr>Table_Name = ''t'', Columns = [], PrimaryKey = [''id'']\<rparr>"
      and rTable = "\<lparr>Table_Name = ''t'', Columns = [], PrimaryKey = []\<rparr>"] p r v
  have "set (comparePrimaryKey ''t'' [''id''] [])
       \<subseteq> set (compareSchemas (\<lambda>ks. ks) pkPrimarySchema pkReplicaSchema)"
    by simp
  moreover have "map Severity (compareSchemas (\<lambda>ks. ks) pkPrimarySchema pkReplicaSchema) = [SeverityBlock]"
    by (simp add: compareSchemas_def pkPrimarySchema_def pkReplicaSchema_def rangeKeys_def
        comparePrimaryKey_def compareColumns_def)
  ultimately show ?thesis by simp
qed

subsection \<open>Debezium health check\<close>

lemma restartLoop_ne_state: "restartLoopFinding status w \<noteq> connectorStateFinding status'"
proof
  assume "restartLoopFinding status w = connectorStateFinding status'"
  then have "Meta (restartLoopFinding status w) ''restart_count'' = Meta (connectorStateFinding status') ''restart_count''"
    by simp
  then show False by (simp add: restartLoopFinding_def connectorStateFinding_def)
qed

lemma restartLoop_ne_task: "restartLoopFinding status w \<noteq> taskStateFinding status' task"
proof
  assume "restartLoopFinding status w = taskStateFinding status' task"
  then have "Meta (restartLoopFinding status w) ''restart_count'' = Meta (taskStateFinding status' task) ''restart_count''"
    by simp
  then show False by (simp add: restartLoopFinding_def taskStateFinding_def)
qed

lemma restartLoop_ne_healthy: "restartLoopFinding status w \<noteq> healthyFinding status'"
proof
  assume "restartLoopFinding status w = healthyFinding status'"
  then have "Severity (restartLoopFinding status w) = Severity (healthyFinding status')" by simp
  then show False by (simp add: restartLoopFinding_def healthyFinding_def)
qed

lemma restartLoop_notin_tasks: "restartLoopFinding status w \<notin> set (taskFindings status' tasks)"
  by (induction tasks) (auto simp: restartLoop_ne_task)

lemma taskFindings_empty_iff:
  "(taskFindings status tasks = []) = (\<forall>task\<in>set tasks. Task_State task = ''RUNNING'')"
  by (induction tasks) auto

lemma isRestartLoop_iff:
  "isRestartLoop now status w m =
     (m \<le> RestartCount status \<and> (\<exists>t. LastRestartAt status = Some t \<and> time_Since now t \<le> w))"
  by (auto simp: isRestartLoop_def split: option.split)


text \<open>
  C8. Let the check read a connector status (an inspector is set, the connector name is
  not empty, the read succeeds), let \<open>w\<close> be the configured window, ten minutes when it is
  zero, and \<open>m\<close> the configured maximum, three when it is zero. The check returns no error.
  The restart-loop finding, a Block, is among its findings if and only if the restart
  count is at least \<open>m\<close>, a time of the last restart exists and the time since then is at
  most \<open>w\<close>. When that condition does not hold, the connector state is RUNNING and every
  task state is RUNNING, the findings are exactly one finding, an Info.
\<close>

theorem C8_restart_loop_detection:
  assumes insp: "Debezium_Inspector c = Some inspect"
    and conn: "Connector c \<noteq> []"
    and snap: "inspect (Connector c) = Inr status"
    and w: "w = (if RestartLoopWindow c = 0 then 10 * Minute else RestartLoopWindow c)"
    and m: "m = (if RestartLoopMax c = 0 then 3 else RestartLoopMax c)"
    and loop: "loop = (m \<le> RestartCount status \<and>
                       (\<exists>t. LastRestartAt status = Some t \<and> time_Since now t \<le> w))"
  shows "snd (DebeziumHealthCheck_Run now c) = None
     \<and> (restartLoopFinding status w \<in> set (fst (DebeziumHealthCheck_Run now c))) = loop
     \<and> Severity (restartLoopFinding status w) = SeverityBlock
     \<and> (\<not> loop \<and> ConnectorState status = ''RUNNING''
          \<and> (\<forall>task\<in>set (Tasks status). Task_State task = ''RUNNING'')
        \<longrightarrow> fst (DebeziumHealthCheck_Run now c) = [healthyFinding status]
            \<and> Severity (healthyFinding status) = SeverityInfo)"
proof -
  have cw: "RestartLoopWindow (withDefaults c) = w" "RestartLoopMax (withDefaults c) = m"
    "Connector (withDefaults c) = Connector c"
    by (simp_all add: withDefaults_def w m Let_def)
  have il: "isRestartLoop now status w m = loop"
    by (simp add: isRestartLoop_iff loop)
  have sev: "Severity (restartLoopFinding status w) = SeverityBlock"
    "Severity (healthyFinding status) = SeverityInfo"
    by (simp_all add: restartLoopFinding_def healthyFinding_def)
  show ?thesis
    using insp conn snap
    by (auto simp: DebeziumHealthCheck_Run_def Let_def cw il sev restartLoop_ne_state
        restartLoop_notin_tasks restartLoop_ne_healthy taskFindings_empty_iff)
qed


theorem C8_restart_loop_detection_witness:
  "restartLoopFinding restartedStatus (10 * Minute)
     \<in> set (fst (DebeziumHealthCheck_Run (1000 * Minute) (debeziumCheckOn restartedStatus)))
   \<and> fst (DebeziumHealthCheck_Run (2000 * Minute) (debeziumCheckOn restartedStatus))
     = [healthyFinding restartedStatus]"
proof -
  note defs = debeziumCheckOn_def restartedStatus_def time_Since_def Minute_def
    maxDuration_def minDuration_def
  have i: "Debezium_Inspector (debeziumCheckOn restartedStatus) = Some (\<lambda>connector. Inr restartedStatus)"
    and c: "Connector (debeziumCheckOn restartedStatus) \<noteq> []"
    and s: "(\<lambda>connector. Inr restartedStatus) (Connector (debeziumCheckOn restartedStatus)) = Inr restartedStatus"
    by (simp_all add: debeziumCheckOn_def)
  note loopCase = C8_restart_loop_detection[OF i c s refl refl refl, of "1000 * Minute"]
  note calmCase = C8_restart_loop_detection[OF i c s refl refl refl, of "2000 * Minute"]
  have a: "restartLoopFinding restartedStatus (10 * Minute)
     \<in> set (fst (DebeziumHealthCheck_Run (1000 * Minute) (debeziumCheckOn restartedStatus)))"
    using loopCase by (simp add: defs)
  have b: "fst (DebeziumHealthCheck_Run (2000 * Minute) (debeziumCheckOn restartedStatus))
     = [healthyFinding restartedStatus]"
    using calmCase by (simp add: defs)
  from a b show ?thesis by simp
qed

subsection \<open>Replica Upgrade Orchestrator\<close>

text \<open>
  C3, as the code has it. The orchestrator trims the target's name before anything else and
  returns an error, not a finding, when its inspector or its actions are missing. So: for
  an orchestrator with inspector and actions, and a target whose trimmed name the
  inspector reports as primary or which equals the configured, non-empty primary name,
  \<open>Run\<close> returns exactly one finding, a Block, with the summary counting that one Block;
  it calls no action, and of the inspector only the primary check (not even that when the
  trimmed name is empty); the checkpoint state is unchanged.
\<close>

theorem C3_primary_is_refused:
  assumes collab: "Inspector orch = Some insp" "Actions orch = Some acts"
    and name: "replica = TrimSpace target"
    and primary: "IsPrimary insp replica = Inr True \<or> (Primary orch \<noteq> [] \<and> replica = Primary orch)"
  shows "\<exists>f. Severity f = SeverityBlock \<and>
           UpgradeOrchestrator_Run orch target =
             ((\<lparr>Info = 0, Warn = 0, Block = 1\<rparr>, [f], None), Orchestrator_State orch,
              (if replica = [] then [] else [IsPrimaryCall replica (IsPrimary insp replica)]))"
proof (cases "replica = []")
  case True
  then show ?thesis
    using name by (simp add: UpgradeOrchestrator_Run_def Summary0_def)
next
  case False
  show ?thesis
  proof (cases "IsPrimary insp replica")
    case (Inl err)
    then show ?thesis
      using False name collab by (simp add: UpgradeOrchestrator_Run_def Summary0_def Let_def)
  next
    case (Inr b)
    then show ?thesis
      using False name collab primary
      by (auto simp: UpgradeOrchestrator_Run_def Summary0_def Let_def replicaFinding_def)
  qed
qed

theorem C3_primary_is_refused_witness:
  "\<exists>f. Severity f = SeverityBlock \<and>
     UpgradeOrchestrator_Run (simulatedOrchestrator True (Some (InMemory NewMemoryState)) ''mysql-primary'')
        ''mysql-primary'' =
       ((\<lparr>Info = 0, Warn = 0, Block = 1\<rparr>, [f], None), Some (InMemory NewMemoryState),
        [IsPrimaryCall ''mysql-primary'' (Inr True)])"
proof -
  let ?o = "simulatedOrchestrator True (Some (InMemory NewMemoryState)) ''mysql-primary''"
  have c: "Inspector ?o = Some (staticReplicaInspector True threadsRunning)"
    "Actions ?o = Some simulatedActions"
    by (simp_all add: simulatedOrchestrator_def)
  have n: "''mysql-primary'' = TrimSpace ''mysql-primary''"
    by (simp add: TrimSpace_examples)
  have p: "IsPrimary (staticReplicaInspector True threadsRunning) ''mysql-primary'' = Inr True
       \<or> (Primary ?o \<noteq> [] \<and> ''mysql-primary'' = Primary ?o)"
    by (simp add: staticReplicaInspector_def)
  from C3_primary_is_refused[OF c n p] show ?thesis
    by (simp add: simulatedOrchestrator_def staticReplicaInspector_def)
qed

text \<open>
  The claim C3 as it is stated fails. The configured primary is \<open>" db1"\<close>, with a leading
  space, and so is the target: the orchestrator asks the inspector about \<open>"db1"\<close>, compares
  \<open>"db1"\<close> with the configured name, finds them different and runs the three actions. And
  with the actions missing, the target \<open>"db1"\<close> that equals the configured primary gets an
  error and no finding.
\<close>

theorem C3_primary_is_refused_counterexample:
  "'' db1'' = Primary (simulatedOrchestrator False (Some (InMemory NewMemoryState)) '' db1'')
   \<and> map Severity (fst (snd (fst (UpgradeOrchestrator_Run
          (simulatedOrchestrator False (Some (InMemory NewMemoryState)) '' db1'') '' db1''))))
       = [SeverityInfo, SeverityInfo, SeverityInfo]
   \<and> filter isActionCall (snd (snd (UpgradeOrchestrator_Run
          (simulatedOrchestrator False (Some (InMemory NewMemoryState)) '' db1'') '' db1'')))
       = [StopReplicationCall ''db1'' None, RunUpgradeCall ''db1'' None,
          StartReplicationCall ''db1'' None]
   \<and> ''db1'' = Primary ((simulatedOrchestrator False None ''db1'')\<lparr>Actions := None\<rparr>)
   \<and> fst (UpgradeOrchestrator_Run ((simulatedOrchestrator False None ''db1'')\<lparr>Actions := None\<rparr>) ''db1'')
       = (Summary0, [], Some CollaboratorsRequired)"
  by (simp add: UpgradeOrchestrator_Run_def simulatedOrchestrator_def staticReplicaInspector_def
      simulatedActions_def threadsRunning_def TrimSpace_examples Let_def
      detectPartialProgress_def getBool_def setBool_def MemoryState_Get_def MemoryState_Set_def
      NewMemoryState_def stoppedKey_def upgradedKey_def resumedKey_def runPhases_def stopPhase_def
      upgradePhase_def startPhase_def returned_def replicaFinding_def Summary0_def)

lemma State_Get_Set:
  "State_Get (State_Set st k v) k' = (if k' = k then Some v else State_Get st k')"
  by (cases st) (simp_all add: MemoryState_Get_def MemoryState_Set_def FileState_Get_def
      FileState_Set_def)

lemma getBool_setBool:
  "fst (getBool (setBool (Some st) k True) k') = (if k' = k then True else fst (getBool (Some st) k'))"
  by (simp add: getBool_def setBool_def State_Get_Set)

lemma keys_distinct:
  "stoppedKey r \<noteq> upgradedKey r" "stoppedKey r \<noteq> resumedKey r" "upgradedKey r \<noteq> resumedKey r"
  "upgradedKey r \<noteq> stoppedKey r" "resumedKey r \<noteq> stoppedKey r" "resumedKey r \<noteq> upgradedKey r"
  by (simp_all add: stoppedKey_def upgradedKey_def resumedKey_def)

lemma first_run:
  assumes name: "replica = TrimSpace target" "replica \<noteq> []"
    and store: "Orchestrator_State orch = Some st"
    and fresh: "\<not> fst (getBool (Some st) (stoppedKey replica))"
      "\<not> fst (getBool (Some st) (upgradedKey replica))"
      "\<not> fst (getBool (Some st) (resumedKey replica))"
    and ok: "replicaAndAllCallsSucceed orch replica"
  shows "\<exists>status. snd (UpgradeOrchestrator_Run orch target) =
     (setBool (setBool (setBool (Some st) (stoppedKey replica) True) (upgradedKey replica) True)
        (resumedKey replica) True,
      [IsPrimaryCall replica (Inr False), ReplicationStatusCall replica (Inr status),
       StopReplicationCall replica None, RunUpgradeCall replica None,
       StartReplicationCall replica None])"
proof -
  obtain insp acts where c: "Inspector orch = Some insp" "Actions orch = Some acts"
    using ok by (auto simp: replicaAndAllCallsSucceed_def split: option.splits)
  obtain status where s: "Inspector_ReplicationStatus insp replica = Inr status"
    using ok c by (auto simp: replicaAndAllCallsSucceed_def split: sum.splits)
  have p: "IsPrimary insp replica = Inr False" "\<not> (Primary orch \<noteq> [] \<and> replica = Primary orch)"
    and a: "StopReplication acts replica = None" "RunUpgrade acts replica = None"
      "StartReplication acts replica = None"
    using ok c by (auto simp: replicaAndAllCallsSucceed_def)
  have nb: "\<not> hasBlock (detectPartialProgress replica status (Some st))"
    by (simp add: detectPartialProgress_def Let_def replicaFinding_def)
  have u: "\<not> fst (getBool (setBool (Some st) (stoppedKey replica) True) (upgradedKey replica))"
    using fresh by (simp add: getBool_setBool keys_distinct)
  have r: "\<not> fst (getBool (setBool (setBool (Some st) (stoppedKey replica) True)
               (upgradedKey replica) True) (resumedKey replica))"
    using fresh by (simp add: setBool_def getBool_def State_Get_Set keys_distinct)
  show ?thesis
    using name c s p a nb fresh u r store
    by (simp add: UpgradeOrchestrator_Run_def Let_def runPhases_def stopPhase_def upgradePhase_def
        startPhase_def returned_def)
qed

lemma later_run:
  assumes name: "replica = TrimSpace target" "replica \<noteq> []"
    and store: "Orchestrator_State orch = state"
    and marked: "fst (getBool state (stoppedKey replica))"
      "fst (getBool state (upgradedKey replica))"
      "fst (getBool state (resumedKey replica))"
    and ok: "replicaAndAllCallsSucceed orch replica"
  shows "\<exists>status. snd (UpgradeOrchestrator_Run orch target) =
     (state, [IsPrimaryCall replica (Inr False), ReplicationStatusCall replica (Inr status)])"
proof -
  obtain insp acts where c: "Inspector orch = Some insp" "Actions orch = Some acts"
    using ok by (auto simp: replicaAndAllCallsSucceed_def split: option.splits)
  obtain status where s: "Inspector_ReplicationStatus insp replica = Inr status"
    using ok c by (auto simp: replicaAndAllCallsSucceed_def split: sum.splits)
  have p: "IsPrimary insp replica = Inr False" "\<not> (Primary orch \<noteq> [] \<and> replica = Primary orch)"
    using ok c by (auto simp: replicaAndAllCallsSucceed_def)
  have nb: "\<not> hasBlock (detectPartialProgress replica status state)"
    by (simp add: detectPartialProgress_def Let_def replicaFinding_def)
  show ?thesis
    using name c s p nb marked store
    by (simp add: UpgradeOrchestrator_Run_def Let_def runPhases_def stopPhase_def upgradePhase_def
        startPhase_def returned_def)
qed

text \<open>
  C2, as the code has it. A phase runs unless its checkpoint holds \<open>true\<close>; what the
  first run does depends on the checkpoints it finds. So: let the replica's trimmed name
  be non-empty and not the primary, let every inspector and action call succeed, and let
  the checkpoint store hold none of the replica's three checkpoints before the first run.
  Then two runs in sequence against that store call \<open>StopReplication\<close>, \<open>RunUpgrade\<close> and
  \<open>StartReplication\<close> exactly once each in total, in this order, and the second run calls
  no action.
\<close>

theorem C2_two_runs_act_once:
  assumes name: "replica = TrimSpace target" "replica \<noteq> []"
    and store: "Orchestrator_State orch = Some st"
    and fresh: "\<not> fst (getBool (Some st) (stoppedKey replica))"
      "\<not> fst (getBool (Some st) (upgradedKey replica))"
      "\<not> fst (getBool (Some st) (resumedKey replica))"
    and ok: "replicaAndAllCallsSucceed orch replica"
  shows "filter isActionCall (fst (runTwice orch target) @ snd (runTwice orch target)) =
           [StopReplicationCall replica None, RunUpgradeCall replica None,
            StartReplicationCall replica None]
       \<and> filter isActionCall (snd (runTwice orch target)) = []"
proof -
  let ?st1 = "setBool (setBool (setBool (Some st) (stoppedKey replica) True)
                 (upgradedKey replica) True) (resumedKey replica) True"
  let ?o2 = "orch\<lparr>Orchestrator_State := ?st1\<rparr>"
  obtain status where r1: "snd (UpgradeOrchestrator_Run orch target) =
     (?st1, [IsPrimaryCall replica (Inr False), ReplicationStatusCall replica (Inr status),
       StopReplicationCall replica None, RunUpgradeCall replica None,
       StartReplicationCall replica None])"
    using first_run[OF name store fresh ok] by blast
  have ok2: "replicaAndAllCallsSucceed ?o2 replica"
    using ok by (auto simp: replicaAndAllCallsSucceed_def split: option.splits)
  have d: "fst (getBool ?st1 (stoppedKey replica))" "fst (getBool ?st1 (upgradedKey replica))"
    "fst (getBool ?st1 (resumedKey replica))"
    by (simp_all add: setBool_def getBool_def State_Get_Set keys_distinct)
  have s2: "Orchestrator_State ?o2 = ?st1" by simp
  obtain status2 where r2: "snd (UpgradeOrchestrator_Run ?o2 target) =
     (?st1, [IsPrimaryCall replica (Inr False), ReplicationStatusCall replica (Inr status2)])"
    using later_run[OF name s2 d ok2] by blast
  show ?thesis
    using r1 r2 by (auto simp: runTwice_def split: prod.splits)
qed


theorem C2_two_runs_act_once_witness:
  "filter isActionCall
     (fst (runTwice (simulatedOrchestrator False (Some (InMemory NewMemoryState)) ''mysql-primary'') ''replica-1'')
      @ snd (runTwice (simulatedOrchestrator False (Some (InMemory NewMemoryState)) ''mysql-primary'') ''replica-1''))
   = [StopReplicationCall ''replica-1'' None, RunUpgradeCall ''replica-1'' None,
      StartReplicationCall ''replica-1'' None]"
proof -
  let ?o = "simulatedOrchestrator False (Some (InMemory NewMemoryState)) ''mysql-primary''"
  have n: "''replica-1'' = TrimSpace ''replica-1''" "''replica-1'' \<noteq> []"
    by (simp_all add: TrimSpace_examples)
  have s: "Orchestrator_State ?o = Some (InMemory NewMemoryState)"
    by (simp add: simulatedOrchestrator_def)
  have f: "\<not> fst (getBool (Some (InMemory NewMemoryState)) (stoppedKey ''replica-1''))"
    "\<not> fst (getBool (Some (InMemory NewMemoryState)) (upgradedKey ''replica-1''))"
    "\<not> fst (getBool (Some (InMemory NewMemoryState)) (resumedKey ''replica-1''))"
    by (simp_all add: getBool_def MemoryState_Get_def NewMemoryState_def)
  have ok: "replicaAndAllCallsSucceed ?o ''replica-1''"
    by (simp add: replicaAndAllCallsSucceed_def simulatedOrchestrator_def
        staticReplicaInspector_def simulatedActions_def)
  from C2_two_runs_act_once[OF n s f ok] show ?thesis by blast
qed

text \<open>
  The claim C2 as it is stated, for any checkpoint store, fails on a store that already
  holds the three checkpoints (the store of the package's own test of a re-run): the
  replica is not the primary, every call succeeds, and the two runs call no action at all.
\<close>

theorem C2_two_runs_act_once_counterexample:
  "replicaAndAllCallsSucceed (simulatedOrchestrator False (Some checkpointedState) ''mysql-primary'') ''replica-1''
   \<and> filter isActionCall
     (fst (runTwice (simulatedOrchestrator False (Some checkpointedState) ''mysql-primary'') ''replica-1'')
      @ snd (runTwice (simulatedOrchestrator False (Some checkpointedState) ''mysql-primary'') ''replica-1''))
   = []"
  by (simp add: runTwice_def UpgradeOrchestrator_Run_def simulatedOrchestrator_def
      staticReplicaInspector_def simulatedActions_def threadsRunning_def TrimSpace_examples
      Let_def detectPartialProgress_def getBool_def setBool_def MemoryState_Get_def
      MemoryState_Set_def NewMemoryState_def stoppedKey_def upgradedKey_def resumedKey_def
      runPhases_def stopPhase_def upgradePhase_def startPhase_def returned_def
      replicaFinding_def Summary0_def checkpointedState_def replicaAndAllCallsSucceed_def)

subsection \<open>Transport errors of the inspection interfaces\<close>

lemma trimLeading_keeps:
  "c \<in> set s \<Longrightarrow> \<forall>t\<in>set toks. c \<notin> set t \<Longrightarrow> c \<in> set (trimLeading toks s)"
proof (induction toks s rule: trimLeading.induct)
  case (1 toks s)
  show ?case
  proof (cases "find (\<lambda>t. startsWith t s) toks")
    case None
    then have "trimLeading toks s = s" by (subst trimLeading.simps) simp
    then show ?thesis using "1.prems" by simp
  next
    case (Some t)
    then have t: "t \<in> set toks" "startsWith t s"
      by (auto simp: find_Some_iff)
    have "s = t @ drop (length t) s"
      using t(2) by (metis append_take_drop_id startsWith_def)
    then have "c \<in> set t \<or> c \<in> set (drop (length t) s)"
      using "1.prems"(1) by (metis Un_iff set_append)
    then have "c \<in> set (drop (length t) s)" using "1.prems"(2) t(1) by blast
    then have "c \<in> set (trimLeading toks (drop (length t) s))"
      using "1.IH"[OF Some] "1.prems"(2) by blast
    moreover have "trimLeading toks s = trimLeading toks (drop (length t) s)"
      using Some by (subst trimLeading.simps) simp
    ultimately show ?thesis by simp
  qed
qed

lemma TrimSpace_keeps:
  assumes "c \<in> set s" "\<forall>t\<in>set spaceRunes. c \<notin> set t"
  shows "c \<in> set (TrimSpace s)"
proof -
  have "c \<in> set (rev (trimLeading spaceRunes s))"
    using trimLeading_keeps[OF assms] by simp
  moreover have "\<forall>t\<in>set (map rev spaceRunes). c \<notin> set t" using assms(2) by simp
  ultimately have "c \<in> set (trimLeading (map rev spaceRunes) (rev (trimLeading spaceRunes s)))"
    by (rule trimLeading_keeps)
  then show ?thesis by (simp add: TrimSpace_def)
qed

lemma checkErrorFinding_message: "TrimSpace (Message (checkErrorFinding n e)) \<noteq> []"
proof -
  have "CHR ''c'' \<in> set (TrimSpace (Message (checkErrorFinding n e)))"
    by (rule TrimSpace_keeps) (simp_all add: checkErrorFinding_def spaceRunes_def)
  then show ?thesis by auto
qed

lemma enforceMessages_keeps:
  "f \<in> set fs \<Longrightarrow> TrimSpace (Message f) \<noteq> [] \<Longrightarrow> f \<in> set (enforceMessages n fs)"
  by (induction fs) auto

lemma runChecks_no_error:
  "\<forall>c\<in>set cs. ReadOnly c \<Longrightarrow>
   \<exists>s' out' called'. runChecks input cs s out called = ((s', out', None), called')"
  by (induction cs arbitrary: s out called) (auto simp: Let_def split: prod.split)

lemma runChecks_keeps_results:
  "runChecks input cs s out called = ((s', out', None), called') \<Longrightarrow> set out \<subseteq> set out'"
  using runChecks_summary by fastforce

lemma runChecks_error_becomes_block:
  "\<forall>c\<in>set cs. ReadOnly c \<Longrightarrow> c \<in> set cs \<Longrightarrow> Check_Run c input = (fs, Some e) \<Longrightarrow>
   runChecks input cs s out called = ((s', out', None), called') \<Longrightarrow>
   \<exists>r\<in>set out'. CheckName r = Check_Name c \<and>
       checkErrorFinding (Check_Name c) e \<in> set (Result_Findings r)"
proof (induction cs arbitrary: s out called)
  case Nil
  then show ?case by simp
next
  case (Cons d cs)
  obtain fs0 err where r: "Check_Run d input = (fs0, err)" by (cases "Check_Run d input")
  define gs where "gs = enforceMessages (Check_Name d)
      (case err of None \<Rightarrow> fs0 | Some e \<Rightarrow> fs0 @ [checkErrorFinding (Check_Name d) e])"
  have step: "runChecks input cs (applySummary s gs)
            (out @ [\<lparr>CheckName = Check_Name d, Result_Findings = gs\<rparr>])
            (called @ [\<lparr>Called_Name = Check_Name d, Returned_Findings = fs0,
                       Returned_Error = err\<rparr>])
          = ((s', out', None), called')"
    using Cons.prems r by (simp add: Let_def gs_def)
  show ?case
  proof (cases "c = d")
    case True
    then have "err = Some e" "fs0 = fs" using r Cons.prems(3) by simp_all
    then have "checkErrorFinding (Check_Name d) e \<in> set gs"
      unfolding gs_def
      by (auto intro!: enforceMessages_keeps simp: checkErrorFinding_message)
    moreover have "\<lparr>CheckName = Check_Name d, Result_Findings = gs\<rparr> \<in> set out'"
      using runChecks_keeps_results[OF step] by auto
    ultimately show ?thesis using True by force
  next
    case False
    then have "c \<in> set cs" using Cons.prems(2) by simp
    moreover have "\<forall>c\<in>set cs. ReadOnly c" using Cons.prems(1) by simp
    ultimately show ?thesis using Cons.IH Cons.prems(3) step by blast
  qed
qed

lemma countSeverity_member: "f \<in> set fs \<Longrightarrow> Severity f = sv \<Longrightarrow> 1 \<le> countSeverity fs sv"
proof (induction fs)
  case Nil then show ?case by simp
next
  case (Cons g gs)
  have "0 \<le> countSeverity gs sv" by (induction gs) auto
  with Cons show ?case by auto
qed

lemma Checks_Run_error_is_block:
  assumes ro: "\<forall>c\<in>set checks. ReadOnly c" and mem: "c \<in> set checks"
    and fails: "Check_Run c input = (fs, Some e)"
  shows "\<exists>s out called. Checks_Run checks input = ((s, out, None), called) \<and> 1 \<le> Block s \<and>
           (\<exists>r\<in>set out. CheckName r = Check_Name c \<and>
               checkErrorFinding (Check_Name c) e \<in> set (Result_Findings r))"
proof -
  obtain s out called where run: "runChecks input checks Summary0 [] [] = ((s, out, None), called)"
    using runChecks_no_error[OF ro] by blast
  from runChecks_error_becomes_block[OF ro mem fails run]
  obtain r where r: "r \<in> set out" "CheckName r = Check_Name c"
    "checkErrorFinding (Check_Name c) e \<in> set (Result_Findings r)" by blast
  have sev: "Severity (checkErrorFinding (Check_Name c) e) = SeverityBlock"
    by (simp add: checkErrorFinding_def)
  have "s = applySummary Summary0 (allFindings out)"
    using runChecks_summary[OF run] by auto
  moreover have "checkErrorFinding (Check_Name c) e \<in> set (allFindings out)"
    using r by (auto simp: allFindings_def)
  ultimately have "1 \<le> Block s"
    using applySummary_counts[of Summary0 "allFindings out"] countSeverity_member[OF _ sev]
    by (simp add: Summary0_def)
  then show ?thesis using run r unfolding Checks_Run_def by blast
qed

lemma Checks_Run_not_read_only:
  assumes "\<exists>c\<in>set checks. \<not> ReadOnly c"
  shows "fst (Checks_Run checks input) =
     (Summary0, [], Some (NotReadOnly (Check_Name (hd (dropWhile ReadOnly checks)))))"
proof -
  have ne: "dropWhile ReadOnly checks \<noteq> []" using assms by (simp add: dropWhile_eq_Nil_conv)
  then obtain c post where dw: "dropWhile ReadOnly checks = c # post"
    by (cases "dropWhile ReadOnly checks") auto
  have nro: "\<not> ReadOnly c" using dw by (metis hd_dropWhile list.sel(1) ne)
  have split: "checks = takeWhile ReadOnly checks @ c # post"
    using dw by (metis takeWhile_dropWhile_id)
  have pre: "\<forall>p\<in>set (takeWhile ReadOnly checks). ReadOnly p" by (auto dest: set_takeWhileD)
  have "Checks_Run checks input =
        runChecks input (takeWhile ReadOnly checks @ c # post) Summary0 [] []"
    unfolding Checks_Run_def using split by simp
  also have "\<dots> = ((Summary0, [], Some (NotReadOnly (Check_Name c))),
                    [] @ map (callOf input) (takeWhile ReadOnly checks))"
    using pre nro by (rule runChecks_first_not_read_only)
  finally show ?thesis by (simp add: dw)
qed

lemma Checks_Run_error_only_config:
  "snd (snd (fst (Checks_Run checks input))) \<noteq> None \<Longrightarrow> \<exists>c\<in>set checks. \<not> ReadOnly c"
  using runChecks_no_error[of checks input Summary0 "[]" "[]"] unfolding Checks_Run_def
  by fastforce

lemma SchemaParity_read_failure:
  assumes "SchemaParity_Inspector c = Some inspect" "PrimaryHost c \<noteq> []" "ReplicaHost c \<noteq> []"
    and "inspect (PrimaryHost c) = Inl e \<or> inspect (ReplicaHost c) = Inl e"
  shows "\<exists>e'. SchemaParityCheck_Run ord c = ([], Some e')"
  using assms by (auto simp: SchemaParityCheck_Run_def split: sum.splits)

lemma Debezium_read_failure:
  assumes "Debezium_Inspector c = Some inspect" "Connector c \<noteq> []" "inspect (Connector c) = Inl e"
  shows "DebeziumHealthCheck_Run now c = ([statusReadFailedFinding (Connector c) e], None)"
proof -
  have "Connector (withDefaults c) = Connector c" by (simp add: withDefaults_def Let_def)
  then show ?thesis using assms by (simp add: DebeziumHealthCheck_Run_def Let_def)
qed

lemma Kafka_read_failure:
  assumes "Kafka_Inspector c = Some insp" "TrimSpace (Topic c) \<noteq> []"
    and "TopicExists insp (Topic c) = Inl e
         \<or> (TopicExists insp (Topic c) = Inr True \<and> TopicReadable insp (Topic c) = Inl e)
         \<or> (TopicExists insp (Topic c) = Inr True \<and> TopicReadable insp (Topic c) = Inr True
            \<and> SchemaHistoryTables insp (Topic c) = Inl e)"
  shows "\<exists>f. SchemaHistoryCheck_Run lower c = ([f], None) \<and> Severity f = SeverityBlock"
  using assms by (auto simp: SchemaHistoryCheck_Run_def topicFinding_def)

lemma Orchestrator_primary_check_failure:
  assumes "Inspector orch = Some insp" "Actions orch = Some acts" "TrimSpace target \<noteq> []"
    and "IsPrimary insp (TrimSpace target) = Inl e"
  shows "\<exists>f. fst (UpgradeOrchestrator_Run orch target) = (\<lparr>Info = 0, Warn = 0, Block = 1\<rparr>, [f], None)
           \<and> Severity f = SeverityBlock"
  using assms by (simp add: UpgradeOrchestrator_Run_def Let_def Summary0_def)

lemma take_prefix: "take (length fs) xs = fs \<longleftrightarrow> (\<exists>more. xs = fs @ more)"
  by (metis append_eq_conv_conj)

lemma extends_iff:
  "extends w fs cs (summary, findings, state, calls) \<longleftrightarrow>
     Warn summary = w \<and> (\<exists>more. findings = fs @ more) \<and> (\<exists>more. calls = cs @ more)"
  by (simp add: extends_def take_prefix)

lemma stopPhase_keeps:
  "extends w fs cs p \<Longrightarrow>
   (case stopPhase acts r p of Inl q \<Rightarrow> extends w fs cs q | Inr q \<Rightarrow> extends w fs cs q)"
  by (cases p) (auto simp: extends_iff stopPhase_def appendBlock_def Let_def replicaFinding_def
      split: option.splits)

lemma upgradePhase_keeps:
  "extends w fs cs p \<Longrightarrow>
   (case upgradePhase acts r p of Inl q \<Rightarrow> extends w fs cs q | Inr q \<Rightarrow> extends w fs cs q)"
  by (cases p) (auto simp: extends_iff upgradePhase_def appendBlock_def Let_def replicaFinding_def
      split: option.splits)

lemma startPhase_keeps:
  "extends w fs cs p \<Longrightarrow>
   (case startPhase acts r p of Inl q \<Rightarrow> extends w fs cs q | Inr q \<Rightarrow> extends w fs cs q)"
  by (cases p) (auto simp: extends_iff startPhase_def appendBlock_def Let_def replicaFinding_def
      split: option.splits)

lemma returned_keeps:
  "extends w fs cs p \<Longrightarrow>
   \<exists>s more state more'. returned p = ((s, fs @ more, None), state, cs @ more') \<and> Warn s = w"
  by (cases p) (auto simp: extends_iff returned_def)

lemma upgrade_start_keep:
  assumes k1: "extends w fs cs p1"
  shows "\<exists>s more state more'.
     (case upgradePhase acts r p1 of
        Inl q \<Rightarrow> returned q
      | Inr p2 \<Rightarrow>
          (case startPhase acts r p2 of
             Inl q \<Rightarrow> returned q
           | Inr p3 \<Rightarrow> returned p3)) = ((s, fs @ more, None), state, cs @ more') \<and> Warn s = w"
proof (cases "upgradePhase acts r p1")
  case (Inl q)
  then have "extends w fs cs q" using upgradePhase_keeps[OF k1, of acts r] by simp
  from returned_keeps[OF this] show ?thesis by (simp add: Inl)
next
  case p2: (Inr p2)
  then have k2: "extends w fs cs p2" using upgradePhase_keeps[OF k1, of acts r] by simp
  show ?thesis
  proof (cases "startPhase acts r p2")
    case (Inl q)
    then have "extends w fs cs q" using startPhase_keeps[OF k2, of acts r] by simp
    from returned_keeps[OF this] show ?thesis by (simp add: Inl p2)
  next
    case p3: (Inr p3)
    then have "extends w fs cs p3" using startPhase_keeps[OF k2, of acts r] by simp
    from returned_keeps[OF this] show ?thesis by (simp add: p2 p3)
  qed
qed

lemma phases_keep:
  assumes k: "extends w fs cs p"
  shows "\<exists>s more state more'.
     runPhases acts r p = ((s, fs @ more, None), state, cs @ more') \<and> Warn s = w"
proof (cases "stopPhase acts r p")
  case (Inl q)
  then have "extends w fs cs q" using stopPhase_keeps[OF k, of acts r] by simp
  from returned_keeps[OF this] show ?thesis by (simp add: runPhases_def Inl)
next
  case (Inr p1)
  then have k1: "extends w fs cs p1" using stopPhase_keeps[OF k, of acts r] by simp
  from upgrade_start_keep[OF k1, of acts r] show ?thesis by (simp add: runPhases_def Inr)
qed

lemma stopPhase_calls:
  assumes "\<not> fst (getBool state (stoppedKey r))"
  shows "case stopPhase acts r (s, fs, state, cs) of
           Inl q \<Rightarrow> extends (Warn s) fs (cs @ [StopReplicationCall r (StopReplication acts r)]) q
         | Inr q \<Rightarrow> extends (Warn s) fs (cs @ [StopReplicationCall r (StopReplication acts r)]) q"
  using assms
  by (auto simp: extends_iff stopPhase_def appendBlock_def Let_def replicaFinding_def
      split: option.splits)

lemma phases_call_stop:
  assumes u: "\<not> fst (getBool state (stoppedKey r))"
  shows "\<exists>more. snd (snd (runPhases acts r (s, fs, state, cs))) =
           cs @ StopReplicationCall r (StopReplication acts r) # more"
proof (cases "stopPhase acts r (s, fs, state, cs)")
  case (Inl q)
  then have "extends (Warn s) fs (cs @ [StopReplicationCall r (StopReplication acts r)]) q"
    using stopPhase_calls[OF u, where acts = acts and s = s and fs = fs and cs = cs] by simp
  from returned_keeps[OF this] show ?thesis by (auto simp: runPhases_def Inl)
next
  case (Inr p1)
  then have "extends (Warn s) fs (cs @ [StopReplicationCall r (StopReplication acts r)]) p1"
    using stopPhase_calls[OF u, where acts = acts and s = s and fs = fs and cs = cs] by simp
  from upgrade_start_keep[OF this, of acts r] show ?thesis by (auto simp: runPhases_def Inr)
qed

lemma Orchestrator_status_read_failure:
  assumes "Inspector orch = Some insp" "Actions orch = Some acts" "TrimSpace target \<noteq> []"
    and "IsPrimary insp (TrimSpace target) = Inr False"
    and "\<not> (Primary orch \<noteq> [] \<and> TrimSpace target = Primary orch)"
    and "Inspector_ReplicationStatus insp (TrimSpace target) = Inl e"
  shows "UpgradeOrchestrator_Run orch target =
     runPhases acts (TrimSpace target)
       (\<lparr>Info = 0, Warn = 1, Block = 0\<rparr>,
        [replicaFinding SeverityWarn
           (''unable to read replication status: '' @ errorString e) (TrimSpace target)],
        Orchestrator_State orch,
        [IsPrimaryCall (TrimSpace target) (Inr False),
         ReplicationStatusCall (TrimSpace target) (Inl e)])"
  using assms
  by (auto simp: UpgradeOrchestrator_Run_def Let_def replicaFinding_def Summary0_def)

lemma Orchestrator_status_read_failure_warn:
  assumes "Inspector orch = Some insp" "Actions orch = Some acts" "TrimSpace target \<noteq> []"
    and "IsPrimary insp (TrimSpace target) = Inr False"
    and "\<not> (Primary orch \<noteq> [] \<and> TrimSpace target = Primary orch)"
    and "Inspector_ReplicationStatus insp (TrimSpace target) = Inl e"
  shows "\<exists>s rest. fst (UpgradeOrchestrator_Run orch target) =
             (s, replicaFinding SeverityWarn
                   (''unable to read replication status: '' @ errorString e) (TrimSpace target)
                 # rest, None)
           \<and> Warn s = 1"
proof -
  define f where "f = replicaFinding SeverityWarn
              (''unable to read replication status: '' @ errorString e) (TrimSpace target)"
  define cs where "cs = [IsPrimaryCall (TrimSpace target) (Inr False),
         ReplicationStatusCall (TrimSpace target) (Inl e)]"
  have k: "extends 1 [f] cs (\<lparr>Info = 0, Warn = 1, Block = 0\<rparr>, [f], Orchestrator_State orch, cs)"
    by (simp add: extends_iff)
  from phases_keep[OF k, of acts "TrimSpace target"] show ?thesis
    unfolding Orchestrator_status_read_failure[OF assms] f_def[symmetric] cs_def[symmetric]
    by auto
qed

lemma Orchestrator_status_read_failure_stop:
  assumes "Inspector orch = Some insp" "Actions orch = Some acts" "TrimSpace target \<noteq> []"
    and "IsPrimary insp (TrimSpace target) = Inr False"
    and "\<not> (Primary orch \<noteq> [] \<and> TrimSpace target = Primary orch)"
    and "Inspector_ReplicationStatus insp (TrimSpace target) = Inl e"
    and u: "\<not> fst (getBool (Orchestrator_State orch) (stoppedKey (TrimSpace target)))"
  shows "\<exists>more. snd (snd (UpgradeOrchestrator_Run orch target)) =
           [IsPrimaryCall (TrimSpace target) (Inr False),
            ReplicationStatusCall (TrimSpace target) (Inl e),
            StopReplicationCall (TrimSpace target) (StopReplication acts (TrimSpace target))]
           @ more"
proof -
  have "\<exists>more. snd (snd (runPhases acts (TrimSpace target)
       (\<lparr>Info = 0, Warn = 1, Block = 0\<rparr>,
        [replicaFinding SeverityWarn
           (''unable to read replication status: '' @ errorString e) (TrimSpace target)],
        Orchestrator_State orch,
        [IsPrimaryCall (TrimSpace target) (Inr False),
         ReplicationStatusCall (TrimSpace target) (Inl e)]))) =
       [IsPrimaryCall (TrimSpace target) (Inr False),
        ReplicationStatusCall (TrimSpace target) (Inl e)]
       @ StopReplicationCall (TrimSpace target) (StopReplication acts (TrimSpace target)) # more"
    by (rule phases_call_stop[OF u])
  then show ?thesis
    unfolding Orchestrator_status_read_failure[OF assms(1-6)] by simp
qed

lemma returned_no_error: "snd (snd (fst (returned p))) = None"
  by (cases p) (simp add: returned_def)

lemma Orchestrator_error_only_config:
  assumes "snd (snd (fst (UpgradeOrchestrator_Run orch target))) \<noteq> None"
  shows "Inspector orch = None \<or> Actions orch = None"
proof (rule ccontr)
  assume "\<not> (Inspector orch = None \<or> Actions orch = None)"
  then obtain insp acts where c: "Inspector orch = Some insp" "Actions orch = Some acts" by auto
  have "snd (snd (fst (UpgradeOrchestrator_Run orch target))) = None"
    using c
    by (simp add: UpgradeOrchestrator_Run_def Let_def runPhases_def returned_no_error
        split: sum.splits)
  with assms show False by simp
qed

text \<open>
  C4, as the code has it. A failed read through an inspection interface ends as a finding
  of the output and is not the error that a check runner or the orchestrator returns;
  the finding is a Block except for the replication status, where it is a Warn:
  \<^item> in a Checks Runner whose checks are all read-only, an error that a check returns (the
    schema parity check returns one when a schema read fails) becomes the Block finding
    \<open>check error: ...\<close> under that check's name, the summary counts it and the runner
    returns no error;
  \<^item> a Checks Runner that holds a check which is not read-only returns the configuration
    error for the first such check, the zero summary and no results at all, whatever the
    checks before it returned: there a read failure ends in no finding;
  \<^item> a failed read of the connector status is the single Block finding of the Debezium
    check, and a failed read of the topic's existence, readability or coverage is the
    single Block finding of the schema history check;
  \<^item> a failed primary check is the single Block finding of the Replica Upgrade
    Orchestrator;
  \<^item> a failed read of the replication status is a Warn finding, not a Block, and the run
    of the Replica Upgrade Orchestrator continues: what it returns is what the three
    phases return when they start from that one Warn finding, the summary counting it,
    the unchanged checkpoint state and the two inspector calls. So the Warn is the first
    finding returned, the summary counts one Warn, no error is returned, and when the
    checkpoint of the first phase is not set the next call is \<open>StopReplication\<close>.
  A returned error means a configuration fault: a check that is not read-only in the
  Checks Runner, a missing inspector or missing actions in the orchestrator.
\<close>

theorem C4_transport_errors_become_findings:
  "((\<forall>c\<in>set checks. ReadOnly c) \<and> chk \<in> set checks \<and> Check_Run chk input = (fs, Some e) \<longrightarrow>
      (\<exists>s out called. Checks_Run checks input = ((s, out, None), called) \<and> 1 \<le> Block s \<and>
         (\<exists>r\<in>set out. CheckName r = Check_Name chk \<and>
             checkErrorFinding (Check_Name chk) e \<in> set (Result_Findings r))))
   \<and> Severity (checkErrorFinding (Check_Name chk) e) = SeverityBlock
   \<and> ((\<exists>c\<in>set checks. \<not> ReadOnly c) \<longrightarrow>
        fst (Checks_Run checks input) =
          (Summary0, [], Some (NotReadOnly (Check_Name (hd (dropWhile ReadOnly checks))))))
   \<and> (SchemaParity_Inspector sp = Some readSchema \<and> PrimaryHost sp \<noteq> [] \<and> ReplicaHost sp \<noteq> []
        \<and> (readSchema (PrimaryHost sp) = Inl e1 \<or> readSchema (ReplicaHost sp) = Inl e1) \<longrightarrow>
      (\<exists>e'. Check_Run (SchemaParityCheck_asCheck ord sp) input = ([], Some e')))
   \<and> (Debezium_Inspector dc = Some readStatus \<and> Connector dc \<noteq> []
        \<and> readStatus (Connector dc) = Inl e2 \<longrightarrow>
      DebeziumHealthCheck_Run now dc = ([statusReadFailedFinding (Connector dc) e2], None)
      \<and> Severity (statusReadFailedFinding (Connector dc) e2) = SeverityBlock)
   \<and> (Kafka_Inspector kc = Some kafka \<and> TrimSpace (Topic kc) \<noteq> []
        \<and> (TopicExists kafka (Topic kc) = Inl e3
           \<or> (TopicExists kafka (Topic kc) = Inr True \<and> TopicReadable kafka (Topic kc) = Inl e3)
           \<or> (TopicExists kafka (Topic kc) = Inr True \<and> TopicReadable kafka (Topic kc) = Inr True
              \<and> SchemaHistoryTables kafka (Topic kc) = Inl e3)) \<longrightarrow>
      (\<exists>f. SchemaHistoryCheck_Run lower kc = ([f], None) \<and> Severity f = SeverityBlock))
   \<and> (Inspector orch = Some insp \<and> Actions orch = Some acts \<and> TrimSpace target \<noteq> []
        \<and> IsPrimary insp (TrimSpace target) = Inl e4 \<longrightarrow>
      (\<exists>f. fst (UpgradeOrchestrator_Run orch target) = (\<lparr>Info = 0, Warn = 0, Block = 1\<rparr>, [f], None)
           \<and> Severity f = SeverityBlock))
   \<and> (Inspector orch = Some insp \<and> Actions orch = Some acts \<and> TrimSpace target \<noteq> []
        \<and> IsPrimary insp (TrimSpace target) = Inr False
        \<and> \<not> (Primary orch \<noteq> [] \<and> TrimSpace target = Primary orch)
        \<and> Inspector_ReplicationStatus insp (TrimSpace target) = Inl e5 \<longrightarrow>
      UpgradeOrchestrator_Run orch target =
        runPhases acts (TrimSpace target)
          (\<lparr>Info = 0, Warn = 1, Block = 0\<rparr>,
           [replicaFinding SeverityWarn
              (''unable to read replication status: '' @ errorString e5) (TrimSpace target)],
           Orchestrator_State orch,
           [IsPrimaryCall (TrimSpace target) (Inr False),
            ReplicationStatusCall (TrimSpace target) (Inl e5)])
      \<and> (\<exists>s rest. fst (UpgradeOrchestrator_Run orch target) =
             (s, replicaFinding SeverityWarn
                   (''unable to read replication status: '' @ errorString e5) (TrimSpace target)
                 # rest, None)
           \<and> Warn s = 1)
      \<and> (\<not> fst (getBool (Orchestrator_State orch) (stoppedKey (TrimSpace target))) \<longrightarrow>
           (\<exists>more. snd (snd (UpgradeOrchestrator_Run orch target)) =
              [IsPrimaryCall (TrimSpace target) (Inr False),
               ReplicationStatusCall (TrimSpace target) (Inl e5),
               StopReplicationCall (TrimSpace target) (StopReplication acts (TrimSpace target))]
              @ more)))
   \<and> (snd (snd (fst (Checks_Run checks input))) \<noteq> None \<longrightarrow> (\<exists>c\<in>set checks. \<not> ReadOnly c))
   \<and> (snd (snd (fst (UpgradeOrchestrator_Run orch target))) \<noteq> None \<longrightarrow>
        Inspector orch = None \<or> Actions orch = None)"
proof -
  have a: "(\<forall>c\<in>set checks. ReadOnly c) \<and> chk \<in> set checks \<and> Check_Run chk input = (fs, Some e) \<longrightarrow>
      (\<exists>s out called. Checks_Run checks input = ((s, out, None), called) \<and> 1 \<le> Block s \<and>
         (\<exists>r\<in>set out. CheckName r = Check_Name chk \<and>
             checkErrorFinding (Check_Name chk) e \<in> set (Result_Findings r)))"
    using Checks_Run_error_is_block[of checks chk input fs e] by blast
  have a1: "Severity (checkErrorFinding (Check_Name chk) e) = SeverityBlock"
    by (simp add: checkErrorFinding_def)
  have a2: "(\<exists>c\<in>set checks. \<not> ReadOnly c) \<longrightarrow>
        fst (Checks_Run checks input) =
          (Summary0, [], Some (NotReadOnly (Check_Name (hd (dropWhile ReadOnly checks)))))"
    using Checks_Run_not_read_only[of checks input] by blast
  have b: "SchemaParity_Inspector sp = Some readSchema \<and> PrimaryHost sp \<noteq> [] \<and> ReplicaHost sp \<noteq> []
        \<and> (readSchema (PrimaryHost sp) = Inl e1 \<or> readSchema (ReplicaHost sp) = Inl e1) \<longrightarrow>
      (\<exists>e'. Check_Run (SchemaParityCheck_asCheck ord sp) input = ([], Some e'))"
    using SchemaParity_read_failure[of sp readSchema e1 ord]
    by (auto simp: SchemaParityCheck_asCheck_def)
  have c: "Debezium_Inspector dc = Some readStatus \<and> Connector dc \<noteq> []
        \<and> readStatus (Connector dc) = Inl e2 \<longrightarrow>
      DebeziumHealthCheck_Run now dc = ([statusReadFailedFinding (Connector dc) e2], None)
      \<and> Severity (statusReadFailedFinding (Connector dc) e2) = SeverityBlock"
    using Debezium_read_failure[of dc readStatus e2 now]
    by (simp add: statusReadFailedFinding_def)
  have d: "Kafka_Inspector kc = Some kafka \<and> TrimSpace (Topic kc) \<noteq> []
        \<and> (TopicExists kafka (Topic kc) = Inl e3
           \<or> (TopicExists kafka (Topic kc) = Inr True \<and> TopicReadable kafka (Topic kc) = Inl e3)
           \<or> (TopicExists kafka (Topic kc) = Inr True \<and> TopicReadable kafka (Topic kc) = Inr True
              \<and> SchemaHistoryTables kafka (Topic kc) = Inl e3)) \<longrightarrow>
      (\<exists>f. SchemaHistoryCheck_Run lower kc = ([f], None) \<and> Severity f = SeverityBlock)"
    using Kafka_read_failure[of kc kafka e3 lower] by blast
  have e: "Inspector orch = Some insp \<and> Actions orch = Some acts \<and> TrimSpace target \<noteq> []
        \<and> IsPrimary insp (TrimSpace target) = Inl e4 \<longrightarrow>
      (\<exists>f. fst (UpgradeOrchestrator_Run orch target) = (\<lparr>Info = 0, Warn = 0, Block = 1\<rparr>, [f], None)
           \<and> Severity f = SeverityBlock)"
    using Orchestrator_primary_check_failure[of orch insp acts target e4] by blast
  have f: "Inspector orch = Some insp \<and> Actions orch = Some acts \<and> TrimSpace target \<noteq> []
        \<and> IsPrimary insp (TrimSpace target) = Inr False
        \<and> \<not> (Primary orch \<noteq> [] \<and> TrimSpace target = Primary orch)
        \<and> Inspector_ReplicationStatus insp (TrimSpace target) = Inl e5 \<longrightarrow>
      UpgradeOrchestrator_Run orch target =
        runPhases acts (TrimSpace target)
          (\<lparr>Info = 0, Warn = 1, Block = 0\<rparr>,
           [replicaFinding SeverityWarn
              (''unable to read replication status: '' @ errorString e5) (TrimSpace target)],
           Orchestrator_State orch,
           [IsPrimaryCall (TrimSpace target) (Inr False),
            ReplicationStatusCall (TrimSpace target) (Inl e5)])
      \<and> (\<exists>s rest. fst (UpgradeOrchestrator_Run orch target) =
             (s, replicaFinding SeverityWarn
                   (''unable to read replication status: '' @ errorString e5) (TrimSpace target)
                 # rest, None)
           \<and> Warn s = 1)
      \<and> (\<not> fst (getBool (Orchestrator_State orch) (stoppedKey (TrimSpace target))) \<longrightarrow>
           (\<exists>more. snd (snd (UpgradeOrchestrator_Run orch target)) =
              [IsPrimaryCall (TrimSpace target) (Inr False),
               ReplicationStatusCall (TrimSpace target) (Inl e5),
               StopReplicationCall (TrimSpace target) (StopReplication acts (TrimSpace target))]
              @ more))"
    using Orchestrator_status_read_failure[of orch insp acts target e5]
      Orchestrator_status_read_failure_warn[of orch insp acts target e5]
      Orchestrator_status_read_failure_stop[of orch insp acts target e5]
    by blast
  have g: "snd (snd (fst (Checks_Run checks input))) \<noteq> None \<longrightarrow> (\<exists>c\<in>set checks. \<not> ReadOnly c)"
    using Checks_Run_error_only_config[of checks input] by blast
  have h: "snd (snd (fst (UpgradeOrchestrator_Run orch target))) \<noteq> None \<longrightarrow>
        Inspector orch = None \<or> Actions orch = None"
    using Orchestrator_error_only_config[of orch target] by blast
  from a a1 a2 b c d e f g h show ?thesis by (intro conjI)
qed

text \<open>
  The theorem at the failing schema parity check alone in a runner, at the same check
  followed by a check that is not read-only, and at an orchestrator whose inspector fails
  to read the replication status.
\<close>

theorem C4_transport_errors_become_findings_witness:
  "(\<exists>s out called.
       Checks_Run [SchemaParityCheck_asCheck (\<lambda>ks. ks) failingParityCheck] () = ((s, out, None), called)
       \<and> 1 \<le> Block s
       \<and> (\<exists>r\<in>set out. CheckName r = ''schema_parity'' \<and>
            \<lparr>Severity = SeverityBlock,
             Message = ''check error: failed to read primary schema: connection refused'',
             Meta = [''check'' \<mapsto> StrV ''schema_parity'']\<rparr> \<in> set (Result_Findings r)))
   \<and> fst (Checks_Run [SchemaParityCheck_asCheck (\<lambda>ks. ks) failingParityCheck, mutatingCheck] ())
       = (Summary0, [], Some (NotReadOnly ''mutating''))
   \<and> (\<exists>s rest. fst (UpgradeOrchestrator_Run statusFailureOrchestrator ''replica-1'') =
          (s, replicaFinding SeverityWarn ''unable to read replication status: status failure''
                ''replica-1'' # rest, None)
        \<and> Warn s = 1)
   \<and> (\<exists>more. snd (snd (UpgradeOrchestrator_Run statusFailureOrchestrator ''replica-1'')) =
          [IsPrimaryCall ''replica-1'' (Inr False),
           ReplicationStatusCall ''replica-1'' (Inl (External ''status failure'')),
           StopReplicationCall ''replica-1'' None] @ more)"
proof -
  let ?chk = "SchemaParityCheck_asCheck (\<lambda>ks. ks) failingParityCheck :: unit PreflightCheck"
  let ?e = "Wrapped ''failed to read primary schema: '' (External ''connection refused'')"
  have ro: "\<forall>c\<in>set [?chk]. ReadOnly c" by (simp add: SchemaParityCheck_asCheck_def)
  have mem: "?chk \<in> set [?chk]" by simp
  have fails: "Check_Run ?chk () = ([], Some ?e)"
    by (simp add: SchemaParityCheck_asCheck_def SchemaParityCheck_Run_def failingParityCheck_def)
  have nm: "Check_Name ?chk = ''schema_parity''" by (simp add: SchemaParityCheck_asCheck_def)
  have cf: "checkErrorFinding ''schema_parity'' ?e =
      \<lparr>Severity = SeverityBlock,
       Message = ''check error: failed to read primary schema: connection refused'',
       Meta = [''check'' \<mapsto> StrV ''schema_parity'']\<rparr>"
    by (simp add: checkErrorFinding_def)
  have nro: "\<exists>c\<in>set [?chk, mutatingCheck]. \<not> ReadOnly c" by (simp add: mutatingCheck_def)
  have o: "Inspector statusFailureOrchestrator = Some failingStatusInspector"
    "Actions statusFailureOrchestrator = Some simulatedActions"
    by (simp_all add: statusFailureOrchestrator_def)
  have t: "TrimSpace ''replica-1'' = ''replica-1''" by (simp add: TrimSpace_examples)
  have np: "IsPrimary failingStatusInspector ''replica-1'' = Inr False"
    "\<not> (Primary statusFailureOrchestrator \<noteq> [] \<and> ''replica-1'' = Primary statusFailureOrchestrator)"
    "Inspector_ReplicationStatus failingStatusInspector ''replica-1'' = Inl (External ''status failure'')"
    by (simp_all add: failingStatusInspector_def statusFailureOrchestrator_def)
  have u: "\<not> fst (getBool (Orchestrator_State statusFailureOrchestrator) (stoppedKey ''replica-1''))"
    by (simp add: statusFailureOrchestrator_def getBool_def MemoryState_Get_def NewMemoryState_def)
  have st: "StopReplication simulatedActions ''replica-1'' = None"
    by (simp add: simulatedActions_def)
  note inst = C4_transport_errors_become_findings[where checks = "[?chk]" and chk = ?chk and input = "()" and fs = "[]"
      and e = ?e
      and orch = statusFailureOrchestrator and insp = failingStatusInspector
      and acts = simulatedActions and target = "''replica-1''"
      and ?e5.0 = "External ''status failure''"]
  note inst2 = C4_transport_errors_become_findings[where checks = "[?chk, mutatingCheck]" and input = "()"]
  have a: "\<exists>s out called. Checks_Run [?chk] () = ((s, out, None), called) \<and> 1 \<le> Block s
       \<and> (\<exists>r\<in>set out. CheckName r = ''schema_parity'' \<and>
            \<lparr>Severity = SeverityBlock,
             Message = ''check error: failed to read primary schema: connection refused'',
             Meta = [''check'' \<mapsto> StrV ''schema_parity'']\<rparr> \<in> set (Result_Findings r))"
    using inst[THEN conjunct1] ro mem fails unfolding nm cf by blast
  have a2: "fst (Checks_Run [?chk, mutatingCheck] ()) = (Summary0, [], Some (NotReadOnly ''mutating''))"
    using inst2[THEN conjunct2, THEN conjunct2, THEN conjunct1] nro
    by (simp add: SchemaParityCheck_asCheck_def mutatingCheck_def)
  have hyp: "Inspector statusFailureOrchestrator = Some failingStatusInspector
      \<and> Actions statusFailureOrchestrator = Some simulatedActions
      \<and> TrimSpace ''replica-1'' \<noteq> []
      \<and> IsPrimary failingStatusInspector (TrimSpace ''replica-1'') = Inr False
      \<and> \<not> (Primary statusFailureOrchestrator \<noteq> []
             \<and> TrimSpace ''replica-1'' = Primary statusFailureOrchestrator)
      \<and> Inspector_ReplicationStatus failingStatusInspector (TrimSpace ''replica-1'')
          = Inl (External ''status failure'')"
    using o np by (simp add: t)
  note f = inst[THEN conjunct2, THEN conjunct2, THEN conjunct2, THEN conjunct2, THEN conjunct2,
        THEN conjunct2, THEN conjunct2, THEN conjunct1, THEN mp, OF hyp, unfolded t]
  have b: "\<exists>s rest. fst (UpgradeOrchestrator_Run statusFailureOrchestrator ''replica-1'') =
          (s, replicaFinding SeverityWarn ''unable to read replication status: status failure''
                ''replica-1'' # rest, None)
        \<and> Warn s = 1"
    using f[THEN conjunct2, THEN conjunct1] by simp
  have c: "\<exists>more. snd (snd (UpgradeOrchestrator_Run statusFailureOrchestrator ''replica-1'')) =
          [IsPrimaryCall ''replica-1'' (Inr False),
           ReplicationStatusCall ''replica-1'' (Inl (External ''status failure'')),
           StopReplicationCall ''replica-1'' None] @ more"
    using f[THEN conjunct2, THEN conjunct2, THEN mp, OF u] unfolding st by simp
  from a a2 b c show ?thesis by blast
qed

text \<open>
  The claim C4 as it is stated, a Block for every transport error, fails at the read of
  the replication status: the inspector fails there, the actions succeed, and the output
  holds one Warn and three Info findings, with no Block and no returned error.
\<close>

theorem C4_transport_errors_become_findings_counterexample:
  "Inspector_ReplicationStatus failingStatusInspector ''replica-1'' = Inl (External ''status failure'')
   \<and> fst (fst (UpgradeOrchestrator_Run statusFailureOrchestrator ''replica-1''))
       = \<lparr>Info = 3, Warn = 1, Block = 0\<rparr>
   \<and> map Severity (fst (snd (fst (UpgradeOrchestrator_Run statusFailureOrchestrator ''replica-1''))))
       = [SeverityWarn, SeverityInfo, SeverityInfo, SeverityInfo]
   \<and> snd (snd (fst (UpgradeOrchestrator_Run statusFailureOrchestrator ''replica-1''))) = None"
  by (simp add: UpgradeOrchestrator_Run_def statusFailureOrchestrator_def failingStatusInspector_def
      simulatedActions_def TrimSpace_examples Let_def
      getBool_def setBool_def MemoryState_Get_def MemoryState_Set_def
      NewMemoryState_def stoppedKey_def upgradedKey_def resumedKey_def runPhases_def stopPhase_def
      upgradePhase_def startPhase_def returned_def replicaFinding_def Summary0_def)

end
